theory Spec2Isabelle
  imports Main "HOL-Library.AList"
begin

section \<open>JavaScript strings and maps\<close>

text \<open>
  Strings are lists of characters, one \<open>char\<close> per UTF-16 code unit; the 256 values of
  \<open>char\<close> are the code units of Latin-1 text, and a string with a code unit beyond them has
  no counterpart here. The helpers below are the \<open>String.prototype\<close> methods the source calls,
  with JavaScript's conventions: \<open>indexOf\<close> and \<open>lastIndexOf\<close> answer \<open>-1\<close> when
  nothing is found, \<open>substring\<close> clamps its bounds, and \<open>split\<close> always returns at least one
  piece.
\<close>

definition startsWith :: "string \<Rightarrow> string \<Rightarrow> bool" where
  "startsWith s p = (take (length p) s = p)"

fun indexOf_from :: "nat \<Rightarrow> string \<Rightarrow> string \<Rightarrow> int" where
  "indexOf_from i [] q = (if q = [] then int i else - 1)"
| "indexOf_from i (c # cs) q =
     (if startsWith (c # cs) q then int i else indexOf_from (Suc i) cs q)"

definition indexOf :: "string \<Rightarrow> string \<Rightarrow> int" where
  "indexOf s q = indexOf_from 0 s q"

definition str_includes :: "string \<Rightarrow> string \<Rightarrow> bool" where
  "str_includes s q = (indexOf s q \<noteq> - 1)"

fun lastIndexOf_from :: "nat \<Rightarrow> int \<Rightarrow> string \<Rightarrow> char \<Rightarrow> int" where
  "lastIndexOf_from i found [] c = found"
| "lastIndexOf_from i found (x # xs) c =
     lastIndexOf_from (Suc i) (if x = c then int i else found) xs c"

definition lastIndexOf :: "string \<Rightarrow> char \<Rightarrow> int" where
  "lastIndexOf s c = lastIndexOf_from 0 (- 1) s c"

definition substring :: "string \<Rightarrow> int \<Rightarrow> int \<Rightarrow> string" where
  \<comment> \<open>\<open>s.substring(a, b)\<close> for \<open>a \<le> b\<close>; a negative bound counts as 0\<close>
  "substring s a b = drop (nat a) (take (nat b) s)"

definition substring_from :: "string \<Rightarrow> nat \<Rightarrow> string" where
  \<comment> \<open>\<open>s.substring(a)\<close>\<close>
  "substring_from s a = drop a s"

fun str_split :: "char \<Rightarrow> string \<Rightarrow> string list" where
  "str_split c [] = [[]]"
| "str_split c (x # xs) =
     (if x = c then [] # str_split c xs
      else (case str_split c xs of [] \<Rightarrow> [[x]] | w # ws \<Rightarrow> (x # w) # ws))"

text \<open>
  \<open>toLowerCase\<close> maps a Latin-1 string code unit by code unit: the letters A to Z, and the
  capitals from U+00C0 to U+00DE without the multiplication sign U+00D7, each to the code
  unit 32 above it.
\<close>

definition upper_latin1 :: string where
  "upper_latin1 =
     [CHR 0xC0, CHR 0xC1, CHR 0xC2, CHR 0xC3, CHR 0xC4, CHR 0xC5, CHR 0xC6, CHR 0xC7,
      CHR 0xC8, CHR 0xC9, CHR 0xCA, CHR 0xCB, CHR 0xCC, CHR 0xCD, CHR 0xCE, CHR 0xCF,
      CHR 0xD0, CHR 0xD1, CHR 0xD2, CHR 0xD3, CHR 0xD4, CHR 0xD5, CHR 0xD6, CHR 0xD8,
      CHR 0xD9, CHR 0xDA, CHR 0xDB, CHR 0xDC, CHR 0xDD, CHR 0xDE]"

definition lower_latin1 :: string where
  "lower_latin1 =
     [CHR 0xE0, CHR 0xE1, CHR 0xE2, CHR 0xE3, CHR 0xE4, CHR 0xE5, CHR 0xE6, CHR 0xE7,
      CHR 0xE8, CHR 0xE9, CHR 0xEA, CHR 0xEB, CHR 0xEC, CHR 0xED, CHR 0xEE, CHR 0xEF,
      CHR 0xF0, CHR 0xF1, CHR 0xF2, CHR 0xF3, CHR 0xF4, CHR 0xF5, CHR 0xF6, CHR 0xF8,
      CHR 0xF9, CHR 0xFA, CHR 0xFB, CHR 0xFC, CHR 0xFD, CHR 0xFE]"

definition toLowerCase_chr :: "char \<Rightarrow> char" where
  "toLowerCase_chr c =
     (case map_of (zip (''ABCDEFGHIJKLMNOPQRSTUVWXYZ'' @ upper_latin1)
                       (''abcdefghijklmnopqrstuvwxyz'' @ lower_latin1)) c of
        None \<Rightarrow> c
      | Some l \<Rightarrow> l)"

definition toLowerCase :: "string \<Rightarrow> string" where
  "toLowerCase s = map toLowerCase_chr s"

fun collapse_slashes :: "string \<Rightarrow> string" where
  \<comment> \<open>\<open>s.replace(/\/+/g, '/')\<close>\<close>
  "collapse_slashes (a # b # r) =
     (if a = CHR ''/'' \<and> b = CHR ''/'' then collapse_slashes (b # r)
      else a # collapse_slashes (b # r))"
| "collapse_slashes s = s"

text \<open>
  A thrown \<open>Error\<close> is a value carrying its message; a call that can throw returns
  \<open>error + 'a\<close>, with \<open>Inl\<close> for the throw.
\<close>

datatype error = Error string

text \<open>
  A JavaScript \<open>Map\<close> keeps its entries in insertion order: \<open>set\<close> overwrites a present key
  in place and appends an absent one, \<open>delete\<close> drops the key. An association list with
  \<open>AList.update\<close> and \<open>AList.delete\<close> does the same.
\<close>

definition has :: "('k \<times> 'v) list \<Rightarrow> 'k \<Rightarrow> bool" where
  "has m k = (map_of m k \<noteq> None)"

section \<open>The local file system\<close>

record FileNode =
  path :: string
  content :: string
  isBinary :: bool
  lastModified :: nat

type_synonym files = "(string \<times> FileNode) list"

text \<open>
  \<open>LocalFileSystem\<close> holds one private field, the map \<open>_files\<close>. A reading method takes
  the map; a writing method also returns the map it leaves behind, next to its result (\<open>Inl\<close>
  when it throws). \<open>new Date()\<close> is the parameter \<open>now\<close>, read once per call.
\<close>

definition directory_node :: "nat \<Rightarrow> string \<Rightarrow> FileNode" where
  "directory_node now p = \<lparr>path = p, content = [], isBinary = False, lastModified = now\<rparr>"

definition local_readFile :: "files \<Rightarrow> string \<Rightarrow> error + string" where
  "local_readFile fs p =
     (case map_of fs p of
        None \<Rightarrow> Inl (Error (''File not found: '' @ p))
      | Some file \<Rightarrow> Inr (content file))"

fun mkdir_parts :: "nat \<Rightarrow> string list \<Rightarrow> string \<Rightarrow> files \<Rightarrow> files" where
  "mkdir_parts now [] currentPath fs = fs"
| "mkdir_parts now (part # parts) currentPath fs =
     (let currentPath' = currentPath @ ''/'' @ part
      in mkdir_parts now parts currentPath'
           (if \<not> has fs currentPath'
            then AList.update currentPath' (directory_node now currentPath') fs
            else fs))"

definition local_mkdir :: "nat \<Rightarrow> files \<Rightarrow> string \<Rightarrow> bool \<Rightarrow> (error + unit) \<times> files" where
  "local_mkdir now fs p recursive =
     (if has fs p then
        (if recursive then (Inr (), fs)
         else (Inl (Error (''Directory already exists: '' @ p)), fs))
      else if recursive then
        (Inr (), mkdir_parts now (filter (\<lambda>part. part \<noteq> []) (str_split CHR ''/'' p)) [] fs)
      else (Inr (), AList.update p (directory_node now p) fs))"

definition local_writeFile ::
  "nat \<Rightarrow> files \<Rightarrow> string \<Rightarrow> string \<Rightarrow> (error + unit) \<times> files" where
  "local_writeFile now fs p c =
     (let parentDir = substring p 0 (lastIndexOf p CHR ''/'');
          node = \<lparr>path = p, content = c, isBinary = False, lastModified = now\<rparr>
      in if parentDir \<noteq> [] \<and> parentDir \<noteq> p then
           (case local_mkdir now fs parentDir True of
              (Inl e, fs') \<Rightarrow> (Inl e, fs')
            | (Inr _, fs') \<Rightarrow> (Inr (), AList.update p node fs'))
         else (Inr (), AList.update p node fs))"

definition dir_prefix :: "string \<Rightarrow> string" where
  \<comment> \<open>\<open>path === '/' ? '/' : path + '/'\<close>\<close>
  "dir_prefix p = (if p = ''/'' then ''/'' else p @ ''/'')"

fun readdir_entries :: "string \<Rightarrow> string \<Rightarrow> string list \<Rightarrow> string list" where
  "readdir_entries p prefix [] = []"
| "readdir_entries p prefix (filePath # rest) =
     (if startsWith filePath prefix \<and> filePath \<noteq> p then
        (let relativePath = substring_from filePath (length prefix)
         in if \<not> str_includes relativePath ''/''
            then relativePath # readdir_entries p prefix rest
            else readdir_entries p prefix rest)
      else readdir_entries p prefix rest)"

definition local_readdir :: "files \<Rightarrow> string \<Rightarrow> string list" where
  "local_readdir fs p = readdir_entries p (dir_prefix p) (map fst fs)"

definition local_deleteFile :: "files \<Rightarrow> string \<Rightarrow> (error + unit) \<times> files" where
  "local_deleteFile fs p =
     (if \<not> has fs p then (Inl (Error (''File not found: '' @ p)), fs)
      else (Inr (), AList.delete p fs))"

fun delete_prefixed :: "string \<Rightarrow> string list \<Rightarrow> files \<Rightarrow> files" where
  \<comment> \<open>the loop over a snapshot of the keys, deleting each key under the prefix\<close>
  "delete_prefixed prefix [] fs = fs"
| "delete_prefixed prefix (filePath # rest) fs =
     delete_prefixed prefix rest
       (if startsWith filePath prefix then AList.delete filePath fs else fs)"

definition local_deleteDirectory ::
  "files \<Rightarrow> string \<Rightarrow> bool \<Rightarrow> (error + unit) \<times> files" where
  "local_deleteDirectory fs p recursive =
     (if \<not> has fs p then (Inl (Error (''Directory not found: '' @ p)), fs)
      else if \<not> recursive \<and> length (local_readdir fs p) > 0 then
        (Inl (Error (''Directory not empty: '' @ p)), fs)
      else
        (let fs' = AList.delete p fs
         in if recursive then (Inr (), delete_prefixed (dir_prefix p) (map fst fs') fs')
            else (Inr (), fs')))"

definition local_exists :: "files \<Rightarrow> string \<Rightarrow> bool" where
  "local_exists fs p = has fs p"

record stat_info =
  isFile :: bool
  isDirectory :: bool
  stat_size :: nat

definition local_stat :: "files \<Rightarrow> string \<Rightarrow> error + stat_info" where
  "local_stat fs p =
     (case map_of fs p of
        None \<Rightarrow> Inl (Error (''File not found: '' @ p))
      | Some file \<Rightarrow>
          Inr \<lparr>isFile = (content file \<noteq> []), isDirectory = (content file = []),
               stat_size = length (content file)\<rparr>)"

text \<open>
  The constructor seeds the map with three files. The text of \<open>/package.json\<close> (a
  \<open>JSON.stringify\<close> result) and of \<open>/src/App.tsx\<close> (a template literal) are the parameters
  \<open>packageJson\<close> and \<open>appTsx\<close>. No node is made for \<open>/src\<close> itself.
\<close>

definition LocalFileSystem :: "nat \<Rightarrow> string \<Rightarrow> string \<Rightarrow> files" where
  "LocalFileSystem now packageJson appTsx =
     [(''/package.json'',
         \<lparr>path = ''/package.json'', content = packageJson, isBinary = False,
          lastModified = now\<rparr>),
      (''/README.md'',
         \<lparr>path = ''/README.md'',
          content = ''# Bolt.diy Project'' @ [CHR 0x0A, CHR 0x0A] @
            ''This is a local development project with hybrid file management.'',
          isBinary = False, lastModified = now\<rparr>),
      (''/src/App.tsx'',
         \<lparr>path = ''/src/App.tsx'', content = appTsx, isBinary = False, lastModified = now\<rparr>)]"

section \<open>The CodeSandbox instance\<close>

text \<open>
  The SDK's file-system handle is foreign code. Its primitives are the fields of
  \<open>CodeSandboxApi\<close>, functions of the remote state \<open>'c\<close> that the handle stands for; each
  call settles, with \<open>Inl\<close> for a rejection. An instance keeps the handle in \<open>_fileSystem\<close>
  (\<open>None\<close> for \<open>null\<close>).
\<close>

record 'c CodeSandboxApi =
  readTextFile :: "'c \<Rightarrow> string \<Rightarrow> error + string"
  writeTextFile :: "'c \<Rightarrow> string \<Rightarrow> string \<Rightarrow> (error + unit) \<times> 'c"
  api_readdir :: "'c \<Rightarrow> string \<Rightarrow> error + string list"
  api_stat :: "'c \<Rightarrow> string \<Rightarrow> error + stat_info"
  api_mkdir :: "'c \<Rightarrow> string \<Rightarrow> bool option \<Rightarrow> (error + unit) \<times> 'c"
  api_remove :: "'c \<Rightarrow> string \<Rightarrow> bool option \<Rightarrow> (error + unit) \<times> 'c"

record 'c CodeSandboxInstance =
  cs_sandboxId :: string
  cs_fileSystem :: "'c option"
  cs_initialized :: bool
  cs_error :: "string option"

definition not_initialized :: error where
  "not_initialized = Error ''CodeSandbox not initialized''"

definition cs_readFile :: "'c CodeSandboxApi \<Rightarrow> 'c CodeSandboxInstance \<Rightarrow> string \<Rightarrow> error + string" where
  "cs_readFile A inst p =
     (case cs_fileSystem inst of
        None \<Rightarrow> Inl not_initialized
      | Some h \<Rightarrow>
          if \<not> cs_initialized inst then Inl not_initialized
          else (case readTextFile A h p of Inl _ \<Rightarrow> Inr [] | Inr s \<Rightarrow> Inr s))"

definition cs_readdir ::
  "'c CodeSandboxApi \<Rightarrow> 'c CodeSandboxInstance \<Rightarrow> string \<Rightarrow> error + string list" where
  "cs_readdir A inst p =
     (case cs_fileSystem inst of
        None \<Rightarrow> Inl not_initialized
      | Some h \<Rightarrow>
          if \<not> cs_initialized inst then Inl not_initialized
          else (case api_readdir A h p of Inl _ \<Rightarrow> Inr [] | Inr es \<Rightarrow> Inr es))"

definition cs_stat :: "'c CodeSandboxApi \<Rightarrow> 'c CodeSandboxInstance \<Rightarrow> string \<Rightarrow> error + stat_info" where
  "cs_stat A inst p =
     (case cs_fileSystem inst of
        None \<Rightarrow> Inl not_initialized
      | Some h \<Rightarrow> if \<not> cs_initialized inst then Inl not_initialized else api_stat A h p)"

definition cs_writeFile ::
  "'c CodeSandboxApi \<Rightarrow> 'c CodeSandboxInstance \<Rightarrow> string \<Rightarrow> string \<Rightarrow>
     (error + unit) \<times> 'c CodeSandboxInstance" where
  "cs_writeFile A inst p c =
     (case cs_fileSystem inst of
        None \<Rightarrow> (Inl not_initialized, inst)
      | Some h \<Rightarrow>
          if \<not> cs_initialized inst then (Inl not_initialized, inst)
          else (case writeTextFile A h p c of (r, h') \<Rightarrow> (r, inst\<lparr>cs_fileSystem := Some h'\<rparr>)))"

definition cs_mkdir ::
  "'c CodeSandboxApi \<Rightarrow> 'c CodeSandboxInstance \<Rightarrow> string \<Rightarrow> bool option \<Rightarrow>
     (error + unit) \<times> 'c CodeSandboxInstance" where
  "cs_mkdir A inst p options =
     (case cs_fileSystem inst of
        None \<Rightarrow> (Inl not_initialized, inst)
      | Some h \<Rightarrow>
          if \<not> cs_initialized inst then (Inl not_initialized, inst)
          else (case api_mkdir A h p options of (r, h') \<Rightarrow> (r, inst\<lparr>cs_fileSystem := Some h'\<rparr>)))"

definition cs_remove ::
  "'c CodeSandboxApi \<Rightarrow> 'c CodeSandboxInstance \<Rightarrow> string \<Rightarrow> bool option \<Rightarrow>
     (error + unit) \<times> 'c CodeSandboxInstance" where
  "cs_remove A inst p options =
     (case cs_fileSystem inst of
        None \<Rightarrow> (Inl not_initialized, inst)
      | Some h \<Rightarrow>
          if \<not> cs_initialized inst then (Inl not_initialized, inst)
          else (case api_remove A h p options of (r, h') \<Rightarrow> (r, inst\<lparr>cs_fileSystem := Some h'\<rparr>)))"

definition cs_healthCheck :: "'c CodeSandboxApi \<Rightarrow> 'c CodeSandboxInstance \<Rightarrow> bool" where
  "cs_healthCheck A inst =
     (if \<not> cs_initialized inst then False
      else (case cs_readdir A inst ''/'' of Inl _ \<Rightarrow> False | Inr _ \<Rightarrow> True))"

section \<open>Walk-based text search\<close>

record CodeSandboxSearchOptions =
  folders :: "string list option"
  includePattern :: "string option"
  excludePattern :: "string option"
  maxResults :: "nat option"
  useRegExp :: bool
  caseSensitive :: bool
  wholeWord :: bool

text \<open>One record serves for \<open>CodeSandboxSearchResult\<close> and for the search panel's \<open>DisplayMatch\<close>.\<close>

record SearchMatch =
  m_path :: string
  lineNumber :: int
  previewText :: string
  matchCharStart :: int
  matchCharEnd :: int

text \<open>
  The regular-expression engine is foreign too: \<open>RegExp E pattern ignoreCase\<close> is
  \<open>new RegExp(pattern, flags)\<close>, \<open>None\<close> when the constructor throws on an invalid pattern,
  and \<open>exec E regex s\<close> is the index of the first match of a fresh regex in \<open>s\<close>
  (\<open>regex.exec(s)\<close>, or \<open>regex.test(s)\<close> read as "is not \<open>None\<close>").
\<close>

record 'r RegExpEngine =
  RegExp :: "string \<Rightarrow> bool \<Rightarrow> 'r option"
  exec :: "'r \<Rightarrow> string \<Rightarrow> nat option"

definition invalid_regexp :: error where
  "invalid_regexp = Error ''Invalid regular expression''"

definition pattern_test :: "'r RegExpEngine \<Rightarrow> string option \<Rightarrow> string \<Rightarrow> error + bool" where
  \<comment> \<open>\<open>pattern && new RegExp(pattern).test(filePath)\<close>; an unset or empty pattern is falsy\<close>
  "pattern_test E pattern filePath =
     (case pattern of
        None \<Rightarrow> Inr False
      | Some pat \<Rightarrow>
          if pat = [] then Inr False
          else (case RegExp E pat False of
                  None \<Rightarrow> Inl invalid_regexp
                | Some regex \<Rightarrow> Inr (exec E regex filePath \<noteq> None)))"

definition pattern_set :: "string option \<Rightarrow> bool" where
  "pattern_set pattern = (case pattern of None \<Rightarrow> False | Some pat \<Rightarrow> pat \<noteq> [])"

definition word_boundary :: string where
  "word_boundary = [CHR 0x5C, CHR ''b'']"

definition line_matchIndex ::
  "'r RegExpEngine \<Rightarrow> CodeSandboxSearchOptions \<Rightarrow> string \<Rightarrow> string \<Rightarrow> error + int" where
  \<comment> \<open>the body of the loop up to the test of \<open>matchIndex\<close>; \<open>Inl\<close> is an exception that leaves
      the loop, and the \<open>continue\<close> of the regex branch is the index \<open>-1\<close>, which pushes nothing\<close>
  "line_matchIndex E options query line =
     (let searchQuery = (if \<not> caseSensitive options then toLowerCase query else query);
          searchLine = (if \<not> caseSensitive options then toLowerCase line else line)
      in if useRegExp options then
           (case RegExp E searchQuery (\<not> caseSensitive options) of
              None \<Rightarrow> Inr (- 1)
            | Some regex \<Rightarrow>
                (case exec E regex searchLine of None \<Rightarrow> Inr (- 1) | Some i \<Rightarrow> Inr (int i)))
         else if wholeWord options then
           (case RegExp E (word_boundary @ searchQuery @ word_boundary)
                   (\<not> caseSensitive options) of
              None \<Rightarrow> Inl invalid_regexp
            | Some wordRegex \<Rightarrow>
                (case exec E wordRegex searchLine of None \<Rightarrow> Inr (- 1) | Some i \<Rightarrow> Inr (int i)))
         else Inr (indexOf searchLine searchQuery))"

fun scan_lines ::
  "'r RegExpEngine \<Rightarrow> CodeSandboxSearchOptions \<Rightarrow> string \<Rightarrow> string \<Rightarrow> nat \<Rightarrow> string list \<Rightarrow>
     SearchMatch list \<Rightarrow> error + SearchMatch list" where
  "scan_lines E options filePath query lineIndex [] fileMatches = Inr fileMatches"
| "scan_lines E options filePath query lineIndex (line # lines) fileMatches =
     (case line_matchIndex E options query line of
        Inl e \<Rightarrow> Inl e
      | Inr matchIndex \<Rightarrow>
          scan_lines E options filePath query (Suc lineIndex) lines
            (if matchIndex \<noteq> - 1 then
               fileMatches @
                 [\<lparr>m_path = filePath, lineNumber = int lineIndex + 1, previewText = line,
                   matchCharStart = matchIndex,
                   matchCharEnd = matchIndex + int (length query)\<rparr>]
             else fileMatches))"

text \<open>
  A search threads two lists: \<open>results\<close>, the accumulator the source passes along, and
  \<open>calls\<close>, the invocations of \<open>progressCallback\<close> in order, each a file path with its batch.
\<close>

record search_state =
  results :: "SearchMatch list"
  calls :: "(string \<times> SearchMatch list) list"

definition searchInFile ::
  "'r RegExpEngine \<Rightarrow> 'c CodeSandboxApi \<Rightarrow> 'c CodeSandboxInstance \<Rightarrow> string \<Rightarrow> string \<Rightarrow>
     CodeSandboxSearchOptions \<Rightarrow> search_state \<Rightarrow> search_state" where
  "searchInFile E A inst filePath query options st =
     (case pattern_test E (excludePattern options) filePath of
        Inl _ \<Rightarrow> st
      | Inr True \<Rightarrow> st
      | Inr False \<Rightarrow>
          (case pattern_test E (includePattern options) filePath of
             Inl _ \<Rightarrow> st
           | Inr included \<Rightarrow>
               if pattern_set (includePattern options) \<and> \<not> included then st
               else
                 (case cs_readFile A inst filePath of
                    Inl _ \<Rightarrow> st
                  | Inr text \<Rightarrow>
                      if text = [] then st
                      else
                        (case scan_lines E options filePath query 0
                                (str_split CHR 0x0A text) [] of
                           Inl _ \<Rightarrow> st
                         | Inr fileMatches \<Rightarrow>
                             if length fileMatches > 0 then
                               st\<lparr>calls := calls st @ [(filePath, fileMatches)],
                                  results := results st @ fileMatches\<rparr>
                             else st))))"

text \<open>
  The traversal follows whatever \<open>readdir\<close> and \<open>stat\<close> answer, so nothing bounds its depth:
  the model counts the nesting of \<open>_searchInFolder\<close> calls down from \<open>fuel\<close> and answers
  \<open>None\<close> when it runs out.
\<close>

fun searchInFolder ::
  "nat \<Rightarrow> 'r RegExpEngine \<Rightarrow> 'c CodeSandboxApi \<Rightarrow> 'c CodeSandboxInstance \<Rightarrow> string \<Rightarrow> string \<Rightarrow>
     CodeSandboxSearchOptions \<Rightarrow> search_state \<Rightarrow> search_state option"
and searchEntries ::
  "nat \<Rightarrow> 'r RegExpEngine \<Rightarrow> 'c CodeSandboxApi \<Rightarrow> 'c CodeSandboxInstance \<Rightarrow> string \<Rightarrow>
     string list \<Rightarrow> string \<Rightarrow> CodeSandboxSearchOptions \<Rightarrow> search_state \<Rightarrow> search_state option"
where
  "searchInFolder 0 E A inst folderPath query options st = None"
| "searchInFolder (Suc fuel) E A inst folderPath query options st =
     (case cs_readdir A inst folderPath of
        Inl _ \<Rightarrow> Some st
      | Inr entries \<Rightarrow> searchEntries fuel E A inst folderPath entries query options st)"
| "searchEntries fuel E A inst folderPath [] query options st = Some st"
| "searchEntries fuel E A inst folderPath (entry # entries) query options st =
     (let fullPath = collapse_slashes (folderPath @ ''/'' @ entry)
      in case cs_stat A inst fullPath of
           Inl _ \<Rightarrow> searchEntries fuel E A inst folderPath entries query options st
         | Inr stat \<Rightarrow>
             if isDirectory stat then
               (case searchInFolder fuel E A inst fullPath query options st of
                  None \<Rightarrow> None
                | Some st' \<Rightarrow> searchEntries fuel E A inst folderPath entries query options st')
             else if isFile stat then
               searchEntries fuel E A inst folderPath entries query options
                 (searchInFile E A inst fullPath query options st)
             else searchEntries fuel E A inst folderPath entries query options st)"

fun searchFolders ::
  "nat \<Rightarrow> 'r RegExpEngine \<Rightarrow> 'c CodeSandboxApi \<Rightarrow> 'c CodeSandboxInstance \<Rightarrow> string list \<Rightarrow>
     string \<Rightarrow> CodeSandboxSearchOptions \<Rightarrow> search_state \<Rightarrow> search_state option" where
  "searchFolders fuel E A inst [] query options st = Some st"
| "searchFolders fuel E A inst (folder # rest) query options st =
     (case searchInFolder fuel E A inst folder query options st of
        None \<Rightarrow> None
      | Some st' \<Rightarrow> searchFolders fuel E A inst rest query options st')"

definition cs_textSearch ::
  "nat \<Rightarrow> 'r RegExpEngine \<Rightarrow> 'c CodeSandboxApi \<Rightarrow> 'c CodeSandboxInstance \<Rightarrow> string \<Rightarrow>
     CodeSandboxSearchOptions \<Rightarrow> (error + (string \<times> SearchMatch list) list) option" where
  \<comment> \<open>\<open>Inl\<close>: the call throws; \<open>Inr\<close>: the progress callbacks made, in order\<close>
  "cs_textSearch fuel E A inst query options =
     (if \<not> cs_initialized inst \<or> cs_fileSystem inst = None then Some (Inl not_initialized)
      else
        (let searchFolders' = (case folders options of None \<Rightarrow> [''/''] | Some fs \<Rightarrow> fs)
         in case searchFolders fuel E A inst searchFolders' query options
                   \<lparr>results = [], calls = []\<rparr> of
              None \<Rightarrow> None
            | Some st \<Rightarrow> Some (Inr (calls st))))"

section \<open>The mock CodeSandbox instance\<close>

text \<open>
  \<open>MockCodeSandboxInstance\<close> adds the map \<open>_mockFiles\<close> from paths to contents and overrides
  \<open>readFile\<close>, \<open>readdir\<close>, \<open>stat\<close> and \<open>textSearch\<close>. Its \<open>textSearch\<close> reads one option,
  \<open>caseSensitive\<close>. It groups the matches in a plain object keyed by path and hands the
  batches over in the order of \<open>Object.entries\<close>.
\<close>

type_synonym mock_files = "(string \<times> string) list"

definition mock_readFile :: "mock_files \<Rightarrow> string \<Rightarrow> string" where
  "mock_readFile mockFiles p = (case map_of mockFiles p of None \<Rightarrow> [] | Some c \<Rightarrow> c)"

definition mock_readdir :: "mock_files \<Rightarrow> string \<Rightarrow> string list" where
  "mock_readdir mockFiles p = readdir_entries p (dir_prefix p) (map fst mockFiles)"

definition mock_stat :: "mock_files \<Rightarrow> string \<Rightarrow> error + stat_info" where
  "mock_stat mockFiles p =
     (case map_of mockFiles p of
        None \<Rightarrow> Inl (Error (''File not found: '' @ p))
      | Some c \<Rightarrow>
          if c = [] then Inl (Error (''File not found: '' @ p))
          else Inr \<lparr>isFile = True, isDirectory = False, stat_size = length c\<rparr>)"

text \<open>The three files the mock's constructor seeds, character for character.\<close>

fun join_lines :: "string list \<Rightarrow> string" where
  "join_lines [] = []"
| "join_lines [l] = l"
| "join_lines (l # ls) = l @ [CHR 0x0A] @ join_lines ls"

definition mock_packageJson :: string where
  \<comment> \<open>\<open>JSON.stringify({name, version, description}, null, 2)\<close>\<close>
  "mock_packageJson =
     join_lines
       [''{'',
        ''  '' @ [CHR 0x22] @ ''name'' @ [CHR 0x22] @ '': '' @ [CHR 0x22] @ ''bolt-diy-project'' @
          [CHR 0x22] @ '','',
        ''  '' @ [CHR 0x22] @ ''version'' @ [CHR 0x22] @ '': '' @ [CHR 0x22] @ ''1.0.0'' @
          [CHR 0x22] @ '','',
        ''  '' @ [CHR 0x22] @ ''description'' @ [CHR 0x22] @ '': '' @ [CHR 0x22] @
          ''Mock project for fallback mode'' @ [CHR 0x22],
        ''}'']"

definition mock_readme :: string where
  "mock_readme =
     join_lines [''# Bolt.diy Project'', [], ''This is a mock project for fallback mode.'']"

definition mock_appTsx :: string where
  "mock_appTsx =
     join_lines
       [''import React from '' @ [CHR 0x27] @ ''react'' @ [CHR 0x27],
        [],
        ''function App() {'',
        ''  return ('',
        ''    <div>'',
        ''      <h1>Hello from Bolt.diy!</h1>'',
        ''      <p>This is a mock application.</p>'',
        ''    </div>'',
        ''  )'',
        ''}'',
        [],
        ''export default App'']"

definition MockCodeSandboxInstance_files :: mock_files where
  "MockCodeSandboxInstance_files =
     [(''/package.json'', mock_packageJson), (''/README.md'', mock_readme),
      (''/src/App.tsx'', mock_appTsx)]"

fun mock_scan_lines ::
  "CodeSandboxSearchOptions \<Rightarrow> string \<Rightarrow> string \<Rightarrow> nat \<Rightarrow> string list \<Rightarrow> SearchMatch list \<Rightarrow>
     SearchMatch list" where
  "mock_scan_lines options filePath query lineIndex [] rs = rs"
| "mock_scan_lines options filePath query lineIndex (line # lines) rs =
     (let searchQuery = (if caseSensitive options then query else toLowerCase query);
          searchLine = (if caseSensitive options then line else toLowerCase line);
          matchIndex = indexOf searchLine searchQuery
      in mock_scan_lines options filePath query (Suc lineIndex) lines
           (if matchIndex \<noteq> - 1 then
              rs @ [\<lparr>m_path = filePath, lineNumber = int lineIndex + 1, previewText = line,
                      matchCharStart = matchIndex,
                      matchCharEnd = matchIndex + int (length query)\<rparr>]
            else rs))"

fun mock_scan_files ::
  "CodeSandboxSearchOptions \<Rightarrow> string \<Rightarrow> mock_files \<Rightarrow> SearchMatch list \<Rightarrow> SearchMatch list" where
  "mock_scan_files options query [] rs = rs"
| "mock_scan_files options query ((filePath, text) # rest) rs =
     mock_scan_files options query rest
       (mock_scan_lines options filePath query 0 (str_split CHR 0x0A text) rs)"

text \<open>
  The keys of a plain object come out of \<open>Object.entries\<close> with the array indices first, in
  ascending numeric order, and the other keys after them in the order of their creation. An
  array index is the canonical decimal string of an integer from 0 to \<open>2^32 - 2\<close>.
\<close>

definition digit_value :: "char \<Rightarrow> int option" where
  "digit_value c = map_of (zip ''0123456789'' [0, 1, 2, 3, 4, 5, 6, 7, 8, 9]) c"

fun decimal_value :: "int \<Rightarrow> string \<Rightarrow> int option" where
  "decimal_value n [] = Some n"
| "decimal_value n (c # cs) =
     (case digit_value c of None \<Rightarrow> None | Some d \<Rightarrow> decimal_value (10 * n + d) cs)"

definition array_index :: "string \<Rightarrow> int option" where
  "array_index k =
     (case k of
        [] \<Rightarrow> None
      | c # cs \<Rightarrow>
          if c = CHR ''0'' \<and> cs \<noteq> [] then None
          else (case decimal_value 0 k of
                  None \<Rightarrow> None
                | Some n \<Rightarrow> if n \<le> 4294967294 then Some n else None))"

definition object_entries :: "(string \<times> 'a) list \<Rightarrow> (string \<times> 'a) list" where
  \<comment> \<open>the argument lists the own properties in the order of their creation\<close>
  "object_entries obj =
     sort_key (\<lambda>e. case array_index (fst e) of None \<Rightarrow> 0 | Some n \<Rightarrow> n)
       (filter (\<lambda>e. array_index (fst e) \<noteq> None) obj) @
     filter (\<lambda>e. array_index (fst e) = None) obj"

text \<open>
  A plain object inherits the properties of \<open>Object.prototype\<close>. Read under one of these
  names, the fresh object \<open>groupedResults\<close> answers a function (or, for \<open>__proto__\<close>, the
  prototype itself): a truthy value without a \<open>push\<close> method, so that the grouping loop
  skips the initialisation and throws a \<open>TypeError\<close> at the call of \<open>push\<close>.
\<close>

definition Object_prototype_keys :: "string list" where
  "Object_prototype_keys =
     [''constructor'', ''__defineGetter__'', ''__defineSetter__'', ''hasOwnProperty'',
      ''__lookupGetter__'', ''__lookupSetter__'', ''isPrototypeOf'', ''propertyIsEnumerable'',
      ''toString'', ''valueOf'', ''__proto__'', ''toLocaleString'']"

definition push_is_not_a_function :: error where
  "push_is_not_a_function = Error ''TypeError: groupedResults[result.path].push is not a function''"

fun group_results ::
  "SearchMatch list \<Rightarrow> (string \<times> SearchMatch list) list \<Rightarrow>
     error + (string \<times> SearchMatch list) list" where
  "group_results [] groupedResults = Inr groupedResults"
| "group_results (result # rest) groupedResults =
     (if m_path result \<in> set Object_prototype_keys then Inl push_is_not_a_function
      else
        (let g = (if \<not> has groupedResults (m_path result)
                  then AList.update (m_path result) [] groupedResults
                  else groupedResults)
         in group_results rest
              (AList.update (m_path result)
                 ((case map_of g (m_path result) of None \<Rightarrow> [] | Some ms \<Rightarrow> ms) @ [result])
                 g)))"

definition mock_textSearch ::
  "mock_files \<Rightarrow> string \<Rightarrow> CodeSandboxSearchOptions \<Rightarrow>
     error + (string \<times> SearchMatch list) list" where
  \<comment> \<open>\<open>Inl\<close>: the call throws, before any callback; \<open>Inr\<close>: the progress callbacks made, in
      order\<close>
  "mock_textSearch mockFiles query options =
     (case group_results (mock_scan_files options query mockFiles []) [] of
        Inl e \<Rightarrow> Inl e
      | Inr groupedResults \<Rightarrow> Inr (object_entries groupedResults))"

section \<open>Native search: reconciling ranges with the preview\<close>

record Range =
  startLineNumber :: int
  startColumn :: int
  endColumn :: int

record ApiMatch =
  preview_text :: string
  preview_matches :: "Range list"
  ranges :: "Range list"

fun display_ranges ::
  "string \<Rightarrow> string list \<Rightarrow> Range list \<Rightarrow> Range list \<Rightarrow> SearchMatch list \<Rightarrow> SearchMatch list" where
  "display_ranges filePath previewLines previewMatches [] displayMatches = displayMatches"
| "display_ranges filePath previewLines previewMatches (r # rest) displayMatches =
     (let lineIndexInPreview =
            (case previewMatches of
               [] \<Rightarrow> - 1
             | first # _ \<Rightarrow> startLineNumber r - startLineNumber first);
          previewLineText =
            (if lineIndexInPreview \<ge> 0 \<and> lineIndexInPreview < int (length previewLines)
             then previewLines ! nat lineIndexInPreview
             else (case previewLines of [] \<Rightarrow> ''(Preview unavailable)'' | l # _ \<Rightarrow> l))
      in display_ranges filePath previewLines previewMatches rest
           (displayMatches @
              [\<lparr>m_path = filePath, lineNumber = startLineNumber r,
                previewText = previewLineText, matchCharStart = startColumn r,
                matchCharEnd = endColumn r\<rparr>]))"

fun display_apiMatches :: "string \<Rightarrow> ApiMatch list \<Rightarrow> SearchMatch list \<Rightarrow> SearchMatch list" where
  "display_apiMatches filePath [] displayMatches = displayMatches"
| "display_apiMatches filePath (apiMatch # rest) displayMatches =
     display_apiMatches filePath rest
       (display_ranges filePath (str_split CHR 0x0A (preview_text apiMatch))
          (preview_matches apiMatch) (ranges apiMatch) displayMatches)"

definition progressCallback ::
  "string \<Rightarrow> ApiMatch list \<Rightarrow> SearchMatch list list \<Rightarrow> SearchMatch list list" where
  \<comment> \<open>the third argument and the result are the calls of \<open>onProgress\<close> so far\<close>
  "progressCallback filePath apiMatches onProgress =
     (let displayMatches = display_apiMatches filePath apiMatches []
      in if length displayMatches > 0 then onProgress @ [displayMatches] else onProgress)"

section \<open>Initialising the providers\<close>

text \<open>
  Awaiting a promise either resumes with its value, or throws what it was rejected with, or
  never resumes: \<open>Pending\<close> is a promise that never settles, such as
  \<open>new Promise(() => {})\<close>. A rejection carries an \<open>Error\<close> with its message or some other
  value. A promise that is raced against a timer is given with the time, in milliseconds
  from the start of the race, at which it settles.
\<close>

datatype thrown = ErrorValue string | OtherValue

datatype 'a settled = Fulfilled 'a | Rejected thrown | Pending

datatype 'a timed = SettlesAt nat "thrown + 'a" | Never

record Sandbox =
  sandbox_id :: string
  connect :: "unit settled"

record CodeSandboxContext =
  loaded :: bool
  ctx_sandboxId :: "string option"
  ctx_error :: "string option"

definition race_timeout :: "nat \<Rightarrow> 'a timed \<Rightarrow> thrown + 'a" where
  \<comment> \<open>\<open>Promise.race\<close> of the promise and a timer that rejects after \<open>ms\<close> milliseconds; the
      promise is started first and wins when it settles no later than the timer fires\<close>
  "race_timeout ms p =
     (case p of
        SettlesAt t r \<Rightarrow> if t \<le> ms then r else Inl (ErrorValue ''Sandbox creation timeout'')
      | Never \<Rightarrow> Inl (ErrorValue ''Sandbox creation timeout''))"

definition initialize_failed ::
  "'c CodeSandboxInstance \<Rightarrow> CodeSandboxContext \<Rightarrow> thrown \<Rightarrow>
     (error + unit) \<times> 'c CodeSandboxInstance \<times> CodeSandboxContext" where
  \<comment> \<open>the \<open>catch\<close> block of \<open>initialize\<close>\<close>
  "initialize_failed inst ctx v =
     (let errorMessage = (case v of ErrorValue m \<Rightarrow> m | OtherValue \<Rightarrow> ''Unknown error'');
          err = (if str_includes errorMessage ''DataView'' \<or>
                    str_includes errorMessage ''Offset is outside the bounds'' \<or>
                    str_includes errorMessage ''RangeError''
                 then ''CodeSandbox SDK connection error - using local fallback''
                 else errorMessage)
      in (Inl (Error (''CodeSandbox initialization failed: '' @ err)),
          inst\<lparr>cs_error := Some err\<rparr>,
          ctx\<lparr>ctx_error := Some err, loaded := False\<rparr>))"

definition cs_initialize ::
  "'c CodeSandboxInstance \<Rightarrow> CodeSandboxContext \<Rightarrow> Sandbox timed \<Rightarrow>
     ((error + unit) \<times> 'c CodeSandboxInstance \<times> CodeSandboxContext) option" where
  \<comment> \<open>\<open>None\<close>: the call never returns\<close>
  "cs_initialize inst ctx create =
     (if cs_initialized inst then Some (Inr (), inst, ctx)
      else
        (case race_timeout 8000 create of
           Inl v \<Rightarrow> Some (initialize_failed inst ctx v)
         | Inr sandbox \<Rightarrow>
             (let inst1 = inst\<lparr>cs_sandboxId := sandbox_id sandbox\<rparr>
              in case connect sandbox of
                   Pending \<Rightarrow> None
                 | Rejected v \<Rightarrow> Some (initialize_failed inst1 ctx v)
                 | Fulfilled client \<Rightarrow>
                     Some (Inr (), inst1\<lparr>cs_initialized := True\<rparr>,
                           ctx\<lparr>loaded := True, ctx_sandboxId := Some (sandbox_id sandbox),
                               ctx_error := None\<rparr>))))"

definition new_CodeSandboxInstance :: "'c CodeSandboxInstance" where
  "new_CodeSandboxInstance =
     \<lparr>cs_sandboxId = [], cs_fileSystem = None, cs_initialized = False, cs_error = None\<rparr>"

text \<open>
  What the promise \<open>codesandbox\<close> resolves to is an instance of the class or of its mock
  subclass; the mock carries the inherited fields and its own map of files.
\<close>

datatype 'c sandbox_instance =
  RealInstance "'c CodeSandboxInstance"
| MockInstance "'c CodeSandboxInstance" mock_files

record 'c Env =
  SSR :: bool
  VITE_CSB_API_KEY :: "string option"
  hot_codesandbox :: "'c sandbox_instance settled option"

definition codesandbox :: "'c Env \<Rightarrow> Sandbox timed \<Rightarrow> mock_files \<Rightarrow> 'c sandbox_instance settled" where
  \<comment> \<open>the module-level promise; \<open>create\<close> is the SDK's \<open>sandboxes.create\<close> call and
      \<open>mockFiles\<close> the files the mock's constructor seeds\<close>
  "codesandbox env create mockFiles =
     (if SSR env then Pending
      else
        (case VITE_CSB_API_KEY env of
           None \<Rightarrow> Rejected (ErrorValue ''CodeSandbox API key not found'')
         | Some apiKey \<Rightarrow>
             if apiKey = [] then Rejected (ErrorValue ''CodeSandbox API key not found'')
             else
               (case hot_codesandbox env of
                  Some cached \<Rightarrow> cached
                | None \<Rightarrow>
                    (case cs_initialize new_CodeSandboxInstance
                            \<lparr>loaded = False, ctx_sandboxId = None, ctx_error = None\<rparr> create of
                       None \<Rightarrow> Pending
                     | Some (Inr _, inst, _) \<Rightarrow> Fulfilled (RealInstance inst)
                     | Some (Inl _, _, _) \<Rightarrow>
                         Fulfilled (MockInstance new_CodeSandboxInstance mockFiles)))))"

definition isMockInstance :: "'c sandbox_instance \<Rightarrow> bool" where
  \<comment> \<open>\<open>instance.isMockInstance && instance.isMockInstance()\<close>\<close>
  "isMockInstance inst = (case inst of RealInstance _ \<Rightarrow> False | MockInstance _ _ \<Rightarrow> True)"

text \<open>The methods of an instance, with the mock's overrides.\<close>

definition instance_readFile :: "'c CodeSandboxApi \<Rightarrow> 'c sandbox_instance \<Rightarrow> string \<Rightarrow> error + string" where
  "instance_readFile A inst p =
     (case inst of
        RealInstance i \<Rightarrow> cs_readFile A i p
      | MockInstance i mockFiles \<Rightarrow> Inr (mock_readFile mockFiles p))"

definition instance_readdir ::
  "'c CodeSandboxApi \<Rightarrow> 'c sandbox_instance \<Rightarrow> string \<Rightarrow> error + string list" where
  "instance_readdir A inst p =
     (case inst of
        RealInstance i \<Rightarrow> cs_readdir A i p
      | MockInstance i mockFiles \<Rightarrow> Inr (mock_readdir mockFiles p))"

definition instance_stat :: "'c CodeSandboxApi \<Rightarrow> 'c sandbox_instance \<Rightarrow> string \<Rightarrow> error + stat_info" where
  "instance_stat A inst p =
     (case inst of
        RealInstance i \<Rightarrow> cs_stat A i p
      | MockInstance i mockFiles \<Rightarrow> mock_stat mockFiles p)"

definition instance_writeFile ::
  "'c CodeSandboxApi \<Rightarrow> 'c sandbox_instance \<Rightarrow> string \<Rightarrow> string \<Rightarrow> (error + unit) \<times> 'c sandbox_instance" where
  "instance_writeFile A inst p c =
     (case inst of
        RealInstance i \<Rightarrow> (case cs_writeFile A i p c of (r, i') \<Rightarrow> (r, RealInstance i'))
      | MockInstance i mockFiles \<Rightarrow>
          (case cs_writeFile A i p c of (r, i') \<Rightarrow> (r, MockInstance i' mockFiles)))"

definition instance_mkdir ::
  "'c CodeSandboxApi \<Rightarrow> 'c sandbox_instance \<Rightarrow> string \<Rightarrow> bool option \<Rightarrow> (error + unit) \<times> 'c sandbox_instance" where
  "instance_mkdir A inst p options =
     (case inst of
        RealInstance i \<Rightarrow> (case cs_mkdir A i p options of (r, i') \<Rightarrow> (r, RealInstance i'))
      | MockInstance i mockFiles \<Rightarrow>
          (case cs_mkdir A i p options of (r, i') \<Rightarrow> (r, MockInstance i' mockFiles)))"

definition instance_remove ::
  "'c CodeSandboxApi \<Rightarrow> 'c sandbox_instance \<Rightarrow> string \<Rightarrow> bool option \<Rightarrow> (error + unit) \<times> 'c sandbox_instance" where
  "instance_remove A inst p options =
     (case inst of
        RealInstance i \<Rightarrow> (case cs_remove A i p options of (r, i') \<Rightarrow> (r, RealInstance i'))
      | MockInstance i mockFiles \<Rightarrow>
          (case cs_remove A i p options of (r, i') \<Rightarrow> (r, MockInstance i' mockFiles)))"

definition instance_healthCheck :: "'c CodeSandboxApi \<Rightarrow> 'c sandbox_instance \<Rightarrow> bool" where
  "instance_healthCheck A inst =
     (case inst of
        RealInstance i \<Rightarrow> cs_healthCheck A i
      | MockInstance i mockFiles \<Rightarrow> cs_initialized i)"

section \<open>The hybrid file manager\<close>

datatype provider = Codesandbox | Webcontainer | Local

text \<open>
  The field \<open>_fileSystem\<close> holds one of three adapters: a \<open>LocalFileSystem\<close> object, with its
  map, or one of the two object literals that forward to \<open>_codesandboxInstance\<close> and to
  \<open>_webcontainerInstance.fs\<close>. The WebContainer file system is foreign code, modelled like
  the SDK handle by its primitives over a state \<open>'v\<close>.
\<close>

datatype adapter = LocalAdapter files | CodeSandboxAdapter | WebContainerAdapter

fun adapter_kind :: "adapter \<Rightarrow> provider" where
  "adapter_kind (LocalAdapter fs) = Local"
| "adapter_kind CodeSandboxAdapter = Codesandbox"
| "adapter_kind WebContainerAdapter = Webcontainer"

record 'v WebContainerFs =
  wc_readFile :: "'v \<Rightarrow> string \<Rightarrow> error + string"
  wc_writeFile :: "'v \<Rightarrow> string \<Rightarrow> string \<Rightarrow> (error + unit) \<times> 'v"
  wc_readdir :: "'v \<Rightarrow> string \<Rightarrow> error + string list"
  wc_mkdir :: "'v \<Rightarrow> string \<Rightarrow> bool option \<Rightarrow> (error + unit) \<times> 'v"
  wc_rm :: "'v \<Rightarrow> string \<Rightarrow> bool option \<Rightarrow> (error + unit) \<times> 'v"

record ('c, 'v) HybridFileManager =
  provider :: provider
  isReady :: bool
  error :: "string option"
  fileSystem :: adapter
  codesandboxInstance :: "'c sandbox_instance option"
  webcontainerInstance :: "'v option"

definition new_HybridFileManager :: "nat \<Rightarrow> string \<Rightarrow> string \<Rightarrow> ('c, 'v) HybridFileManager" where
  \<comment> \<open>the field initialisers and the constructor, before it calls \<open>_initialize\<close>\<close>
  "new_HybridFileManager now packageJson appTsx =
     \<lparr>provider = Local, isReady = False, error = None,
      fileSystem = LocalAdapter (LocalFileSystem now packageJson appTsx),
      codesandboxInstance = None, webcontainerInstance = None\<rparr>"

definition try_webcontainer ::
  "nat \<Rightarrow> string \<Rightarrow> string \<Rightarrow> 'v settled \<Rightarrow> ('c, 'v) HybridFileManager \<Rightarrow>
     ('c, 'v) HybridFileManager option" where
  \<comment> \<open>the \<open>catch\<close> block of the CodeSandbox attempt, up to \<open>_isReady = true\<close>\<close>
  "try_webcontainer now packageJson appTsx wc m =
     (case wc of
        Pending \<Rightarrow> None
      | Fulfilled w \<Rightarrow>
          Some (m\<lparr>webcontainerInstance := Some w, provider := Webcontainer,
                  fileSystem := WebContainerAdapter, isReady := True\<rparr>)
      | Rejected _ \<Rightarrow>
          Some (m\<lparr>provider := Local,
                  fileSystem := LocalAdapter (LocalFileSystem now packageJson appTsx),
                  isReady := True\<rparr>))"

definition hfm_initialize ::
  "'c CodeSandboxApi \<Rightarrow> nat \<Rightarrow> string \<Rightarrow> string \<Rightarrow> 'c sandbox_instance settled \<Rightarrow> 'v settled \<Rightarrow>
     ('c, 'v) HybridFileManager \<Rightarrow> ('c, 'v) HybridFileManager option" where
  \<comment> \<open>\<open>_initialize\<close>, given what awaiting \<open>codesandbox\<close> and \<open>webcontainer\<close> gives; \<open>None\<close>:
      the call never returns and \<open>_isReady\<close> stays as it was\<close>
  "hfm_initialize A now packageJson appTsx cs wc m =
     (case cs of
        Pending \<Rightarrow> None
      | Rejected _ \<Rightarrow> try_webcontainer now packageJson appTsx wc m
      | Fulfilled inst \<Rightarrow>
          (let m1 = m\<lparr>codesandboxInstance := Some inst\<rparr>
           in if isMockInstance inst then
                Some (m1\<lparr>provider := Local,
                         fileSystem := LocalAdapter (LocalFileSystem now packageJson appTsx),
                         isReady := True\<rparr>)
              else if instance_healthCheck A inst then
                Some (m1\<lparr>provider := Codesandbox, fileSystem := CodeSandboxAdapter,
                         isReady := True\<rparr>)
              else try_webcontainer now packageJson appTsx wc m1))"

text \<open>
  The unified operations. Each one checks \<open>_isReady\<close> and forwards to the adapter; it
  returns its result together with the manager it leaves behind. A call on an instance
  field that is still \<open>undefined\<close> throws a \<open>TypeError\<close>.
\<close>

definition not_ready :: error where
  "not_ready = Error ''File manager not ready''"

definition undefined_instance :: error where
  "undefined_instance = Error ''TypeError: Cannot read properties of undefined''"

definition hfm_readFile ::
  "'c CodeSandboxApi \<Rightarrow> 'v WebContainerFs \<Rightarrow> ('c, 'v) HybridFileManager \<Rightarrow> string \<Rightarrow>
     (error + string) \<times> ('c, 'v) HybridFileManager" where
  "hfm_readFile A W m p =
     (if \<not> isReady m then (Inl not_ready, m)
      else
        (case fileSystem m of
           LocalAdapter fs \<Rightarrow> (local_readFile fs p, m)
         | CodeSandboxAdapter \<Rightarrow>
             (case codesandboxInstance m of
                None \<Rightarrow> (Inl undefined_instance, m)
              | Some inst \<Rightarrow> (instance_readFile A inst p, m))
         | WebContainerAdapter \<Rightarrow>
             (case webcontainerInstance m of
                None \<Rightarrow> (Inl undefined_instance, m)
              | Some w \<Rightarrow> (wc_readFile W w p, m))))"

definition hfm_writeFile ::
  "'c CodeSandboxApi \<Rightarrow> 'v WebContainerFs \<Rightarrow> nat \<Rightarrow> ('c, 'v) HybridFileManager \<Rightarrow> string \<Rightarrow>
     string \<Rightarrow> (error + unit) \<times> ('c, 'v) HybridFileManager" where
  "hfm_writeFile A W now m p c =
     (if \<not> isReady m then (Inl not_ready, m)
      else
        (case fileSystem m of
           LocalAdapter fs \<Rightarrow>
             (case local_writeFile now fs p c of
                (r, fs') \<Rightarrow> (r, m\<lparr>fileSystem := LocalAdapter fs'\<rparr>))
         | CodeSandboxAdapter \<Rightarrow>
             (case codesandboxInstance m of
                None \<Rightarrow> (Inl undefined_instance, m)
              | Some inst \<Rightarrow>
                  (case instance_writeFile A inst p c of
                     (r, inst') \<Rightarrow> (r, m\<lparr>codesandboxInstance := Some inst'\<rparr>)))
         | WebContainerAdapter \<Rightarrow>
             (case webcontainerInstance m of
                None \<Rightarrow> (Inl undefined_instance, m)
              | Some w \<Rightarrow>
                  (case wc_writeFile W w p c of
                     (r, w') \<Rightarrow> (r, m\<lparr>webcontainerInstance := Some w'\<rparr>)))))"

definition hfm_readdir ::
  "'c CodeSandboxApi \<Rightarrow> 'v WebContainerFs \<Rightarrow> ('c, 'v) HybridFileManager \<Rightarrow> string \<Rightarrow>
     (error + string list) \<times> ('c, 'v) HybridFileManager" where
  "hfm_readdir A W m p =
     (if \<not> isReady m then (Inl not_ready, m)
      else
        (case fileSystem m of
           LocalAdapter fs \<Rightarrow> (Inr (local_readdir fs p), m)
         | CodeSandboxAdapter \<Rightarrow>
             (case codesandboxInstance m of
                None \<Rightarrow> (Inl undefined_instance, m)
              | Some inst \<Rightarrow> (instance_readdir A inst p, m))
         | WebContainerAdapter \<Rightarrow>
             (case webcontainerInstance m of
                None \<Rightarrow> (Inl undefined_instance, m)
              | Some w \<Rightarrow> (wc_readdir W w p, m))))"

definition hfm_mkdir ::
  "'c CodeSandboxApi \<Rightarrow> 'v WebContainerFs \<Rightarrow> nat \<Rightarrow> ('c, 'v) HybridFileManager \<Rightarrow> string \<Rightarrow>
     bool \<Rightarrow> (error + unit) \<times> ('c, 'v) HybridFileManager" where
  "hfm_mkdir A W now m p recursive =
     (if \<not> isReady m then (Inl not_ready, m)
      else
        (case fileSystem m of
           LocalAdapter fs \<Rightarrow>
             (case local_mkdir now fs p recursive of
                (r, fs') \<Rightarrow> (r, m\<lparr>fileSystem := LocalAdapter fs'\<rparr>))
         | CodeSandboxAdapter \<Rightarrow>
             (case codesandboxInstance m of
                None \<Rightarrow> (Inl undefined_instance, m)
              | Some inst \<Rightarrow>
                  (case instance_mkdir A inst p (Some recursive) of
                     (r, inst') \<Rightarrow> (r, m\<lparr>codesandboxInstance := Some inst'\<rparr>)))
         | WebContainerAdapter \<Rightarrow>
             (case webcontainerInstance m of
                None \<Rightarrow> (Inl undefined_instance, m)
              | Some w \<Rightarrow>
                  (case wc_mkdir W w p (Some recursive) of
                     (r, w') \<Rightarrow> (r, m\<lparr>webcontainerInstance := Some w'\<rparr>)))))"

definition hfm_deleteFile ::
  "'c CodeSandboxApi \<Rightarrow> 'v WebContainerFs \<Rightarrow> ('c, 'v) HybridFileManager \<Rightarrow> string \<Rightarrow>
     (error + unit) \<times> ('c, 'v) HybridFileManager" where
  "hfm_deleteFile A W m p =
     (if \<not> isReady m then (Inl not_ready, m)
      else
        (case fileSystem m of
           LocalAdapter fs \<Rightarrow>
             (case local_deleteFile fs p of
                (r, fs') \<Rightarrow> (r, m\<lparr>fileSystem := LocalAdapter fs'\<rparr>))
         | CodeSandboxAdapter \<Rightarrow>
             (case codesandboxInstance m of
                None \<Rightarrow> (Inl undefined_instance, m)
              | Some inst \<Rightarrow>
                  (case instance_remove A inst p None of
                     (r, inst') \<Rightarrow> (r, m\<lparr>codesandboxInstance := Some inst'\<rparr>)))
         | WebContainerAdapter \<Rightarrow>
             (case webcontainerInstance m of
                None \<Rightarrow> (Inl undefined_instance, m)
              | Some w \<Rightarrow>
                  (case wc_rm W w p None of
                     (r, w') \<Rightarrow> (r, m\<lparr>webcontainerInstance := Some w'\<rparr>)))))"

definition hfm_deleteDirectory ::
  "'c CodeSandboxApi \<Rightarrow> 'v WebContainerFs \<Rightarrow> ('c, 'v) HybridFileManager \<Rightarrow> string \<Rightarrow> bool \<Rightarrow>
     (error + unit) \<times> ('c, 'v) HybridFileManager" where
  "hfm_deleteDirectory A W m p recursive =
     (if \<not> isReady m then (Inl not_ready, m)
      else
        (case fileSystem m of
           LocalAdapter fs \<Rightarrow>
             (case local_deleteDirectory fs p recursive of
                (r, fs') \<Rightarrow> (r, m\<lparr>fileSystem := LocalAdapter fs'\<rparr>))
         | CodeSandboxAdapter \<Rightarrow>
             (case codesandboxInstance m of
                None \<Rightarrow> (Inl undefined_instance, m)
              | Some inst \<Rightarrow>
                  (case instance_remove A inst p (Some recursive) of
                     (r, inst') \<Rightarrow> (r, m\<lparr>codesandboxInstance := Some inst'\<rparr>)))
         | WebContainerAdapter \<Rightarrow>
             (case webcontainerInstance m of
                None \<Rightarrow> (Inl undefined_instance, m)
              | Some w \<Rightarrow>
                  (case wc_rm W w p (Some recursive) of
                     (r, w') \<Rightarrow> (r, m\<lparr>webcontainerInstance := Some w'\<rparr>)))))"

definition hfm_exists ::
  "'c CodeSandboxApi \<Rightarrow> 'v WebContainerFs \<Rightarrow> ('c, 'v) HybridFileManager \<Rightarrow> string \<Rightarrow>
     (error + bool) \<times> ('c, 'v) HybridFileManager" where
  "hfm_exists A W m p =
     (if \<not> isReady m then (Inl not_ready, m)
      else
        (case fileSystem m of
           LocalAdapter fs \<Rightarrow> (Inr (local_exists fs p), m)
         | CodeSandboxAdapter \<Rightarrow>
             (case codesandboxInstance m of
                None \<Rightarrow> (Inr False, m)
              | Some inst \<Rightarrow>
                  (case instance_stat A inst p of
                     Inl _ \<Rightarrow> (Inr False, m)
                   | Inr _ \<Rightarrow> (Inr True, m)))
         | WebContainerAdapter \<Rightarrow>
             (case webcontainerInstance m of
                None \<Rightarrow> (Inr False, m)
              | Some w \<Rightarrow>
                  (case wc_readdir W w p of
                     Inr _ \<Rightarrow> (Inr True, m)
                   | Inl _ \<Rightarrow>
                       (case wc_readFile W w p of
                          Inr _ \<Rightarrow> (Inr True, m)
                        | Inl _ \<Rightarrow> (Inr False, m))))))"

definition hfm_stat ::
  "'c CodeSandboxApi \<Rightarrow> 'v WebContainerFs \<Rightarrow> ('c, 'v) HybridFileManager \<Rightarrow> string \<Rightarrow>
     (error + stat_info) \<times> ('c, 'v) HybridFileManager" where
  "hfm_stat A W m p =
     (if \<not> isReady m then (Inl not_ready, m)
      else
        (case fileSystem m of
           LocalAdapter fs \<Rightarrow> (local_stat fs p, m)
         | CodeSandboxAdapter \<Rightarrow>
             (case codesandboxInstance m of
                None \<Rightarrow> (Inl undefined_instance, m)
              | Some inst \<Rightarrow> (instance_stat A inst p, m))
         | WebContainerAdapter \<Rightarrow>
             (case webcontainerInstance m of
                None \<Rightarrow> (Inl (Error (''File not found: '' @ p)), m)
              | Some w \<Rightarrow>
                  (case wc_readdir W w p of
                     Inr _ \<Rightarrow> (Inr \<lparr>isFile = False, isDirectory = True, stat_size = 0\<rparr>, m)
                   | Inl _ \<Rightarrow>
                       (case wc_readFile W w p of
                          Inr c \<Rightarrow>
                            (Inr \<lparr>isFile = True, isDirectory = False, stat_size = length c\<rparr>, m)
                        | Inl _ \<Rightarrow> (Inl (Error (''File not found: '' @ p)), m))))))"

definition hfm_healthCheck ::
  "'c CodeSandboxApi \<Rightarrow> 'v WebContainerFs \<Rightarrow> ('c, 'v) HybridFileManager \<Rightarrow>
     bool \<times> ('c, 'v) HybridFileManager" where
  "hfm_healthCheck A W m =
     (if \<not> isReady m then (False, m)
      else (case hfm_readdir A W m ''/'' of
              (Inl _, m') \<Rightarrow> (False, m')
            | (Inr _, m') \<Rightarrow> (True, m')))"

text \<open>A call of any of the nine operations, and a run of calls whose results are dropped.\<close>

datatype operation =
  ReadFile string
| WriteFile string string
| Readdir string
| Mkdir string bool
| DeleteFile string
| DeleteDirectory string bool
| Exists string
| Stat string
| HealthCheck

fun perform ::
  "'c CodeSandboxApi \<Rightarrow> 'v WebContainerFs \<Rightarrow> nat \<Rightarrow> operation \<Rightarrow> ('c, 'v) HybridFileManager \<Rightarrow>
     ('c, 'v) HybridFileManager" where
  "perform A W now (ReadFile p) m = snd (hfm_readFile A W m p)"
| "perform A W now (WriteFile p c) m = snd (hfm_writeFile A W now m p c)"
| "perform A W now (Readdir p) m = snd (hfm_readdir A W m p)"
| "perform A W now (Mkdir p recursive) m = snd (hfm_mkdir A W now m p recursive)"
| "perform A W now (DeleteFile p) m = snd (hfm_deleteFile A W m p)"
| "perform A W now (DeleteDirectory p recursive) m = snd (hfm_deleteDirectory A W m p recursive)"
| "perform A W now (Exists p) m = snd (hfm_exists A W m p)"
| "perform A W now (Stat p) m = snd (hfm_stat A W m p)"
| "perform A W now HealthCheck m = snd (hfm_healthCheck A W m)"

fun perform_all ::
  "'c CodeSandboxApi \<Rightarrow> 'v WebContainerFs \<Rightarrow> nat \<Rightarrow> operation list \<Rightarrow>
     ('c, 'v) HybridFileManager \<Rightarrow> ('c, 'v) HybridFileManager" where
  "perform_all A W now [] m = m"
| "perform_all A W now (op # ops) m = perform_all A W (Suc now) ops (perform A W now op m)"

definition selection ::
  "('c, 'v) HybridFileManager \<Rightarrow> provider \<times> bool \<times> provider" where
  \<comment> \<open>the provider, the readiness flag and which adapter \<open>_fileSystem\<close> holds\<close>
  "selection m = (provider m, isReady m, adapter_kind (fileSystem m))"

section \<open>What the specification says a plain search finds\<close>

text \<open>
  The first occurrence of \<open>q\<close> in \<open>s\<close> is the least offset at which \<open>q\<close> can be read off \<open>s\<close>.
  A case-insensitive plain search reports, for each line in order whose folded copy contains
  the folded query, the line as it is, its number counted from 1 and the first occurrence.
\<close>

definition first_occurrence :: "string \<Rightarrow> string \<Rightarrow> nat option" where
  "first_occurrence s q = List.find (\<lambda>k. take (length q) (drop k s) = q) [0..<Suc (length s)]"

definition folded_line_match :: "string \<Rightarrow> string \<Rightarrow> nat \<times> string \<Rightarrow> SearchMatch list" where
  "folded_line_match filePath query numbered =
     (case first_occurrence (toLowerCase (snd numbered)) (toLowerCase query) of
        None \<Rightarrow> []
      | Some k \<Rightarrow>
          [\<lparr>m_path = filePath, lineNumber = int (fst numbered) + 1, previewText = snd numbered,
            matchCharStart = int k, matchCharEnd = int k + int (length query)\<rparr>])"

definition folded_matches :: "string \<Rightarrow> string \<Rightarrow> string \<Rightarrow> SearchMatch list" where
  "folded_matches filePath query text =
     concat (map (folded_line_match filePath query) (enumerate 0 (str_split CHR 0x0A text)))"

definition file_batch :: "string \<Rightarrow> string \<times> string \<Rightarrow> (string \<times> SearchMatch list) list" where
  \<comment> \<open>one batch for a file with matches, none for a file without\<close>
  "file_batch query entry =
     (if folded_matches (fst entry) query (snd entry) = [] then []
      else [(fst entry, folded_matches (fst entry) query (snd entry))])"

definition ends_ok :: "string \<Rightarrow> SearchMatch list \<Rightarrow> bool" where
  "ends_ok query ms = (\<forall>m \<in> set ms. matchCharEnd m = matchCharStart m + int (length query))"

text \<open>The preview line one pass of the inner loop picks.\<close>

definition code_preview :: "string list \<Rightarrow> Range list \<Rightarrow> Range \<Rightarrow> string" where
  "code_preview previewLines previewMatches r =
     (let lineIndexInPreview =
            (case previewMatches of
               [] \<Rightarrow> - 1
             | first # _ \<Rightarrow> startLineNumber r - startLineNumber first)
      in if lineIndexInPreview \<ge> 0 \<and> lineIndexInPreview < int (length previewLines)
         then previewLines ! nat lineIndexInPreview
         else (case previewLines of [] \<Rightarrow> ''(Preview unavailable)'' | l # _ \<Rightarrow> l))"

text \<open>
  The preview line the specification asks for: the line of the preview at the distance of the
  range's line from the preview's declared first line, and the first preview line when that
  distance is negative or beyond the last line, or when the preview declares no line.
\<close>

definition reconciled_preview :: "ApiMatch \<Rightarrow> Range \<Rightarrow> string" where
  "reconciled_preview apiMatch r =
     (let previewLines = str_split CHR 0x0A (preview_text apiMatch)
      in case preview_matches apiMatch of
           [] \<Rightarrow> hd previewLines
         | first # _ \<Rightarrow>
             (let i = startLineNumber r - startLineNumber first
              in if i < 0 \<or> int (length previewLines) \<le> i then hd previewLines
                 else previewLines ! nat i))"

definition reconciled :: "string \<Rightarrow> ApiMatch \<Rightarrow> Range \<Rightarrow> SearchMatch" where
  "reconciled filePath apiMatch r =
     \<lparr>m_path = filePath, lineNumber = startLineNumber r,
      previewText = reconciled_preview apiMatch r, matchCharStart = startColumn r,
      matchCharEnd = endColumn r\<rparr>"

definition emitted :: "(string \<times> SearchMatch list) list \<Rightarrow> nat" where
  \<comment> \<open>the number of matches handed to the progress callback over a whole search\<close>
  "emitted cs = sum_list (map (\<lambda>c. length (snd c)) cs)"

section \<open>Sample data\<close>

text \<open>
  A small regular-expression engine for the examples: a pattern is a list of literal
  alternatives separated by \<open>|\<close>, a match is the leftmost occurrence of any of them, and a
  pattern with an opening parenthesis counts as invalid. On such patterns it agrees with
  JavaScript.
\<close>

definition alternatives_engine :: "(string list \<times> bool) RegExpEngine" where
  "alternatives_engine =
     \<lparr>RegExp = (\<lambda>pattern ignoreCase.
         if CHR ''('' \<in> set pattern then None
         else Some (str_split CHR ''|'' (if ignoreCase then toLowerCase pattern else pattern),
                    ignoreCase)),
      exec = (\<lambda>regex s.
         (let s' = (if snd regex then toLowerCase s else s);
              found = concat (map (\<lambda>alt. case first_occurrence s' alt of
                                             None \<Rightarrow> [] | Some k \<Rightarrow> [k]) (fst regex))
          in case found of [] \<Rightarrow> None | k # ks \<Rightarrow> Some (fold min ks k)))\<rparr>"

text \<open>
  A second small engine, for whole-word patterns: \<open>\b\<close>, a literal, \<open>\b\<close> matches at the
  leftmost occurrence of the literal that has a word boundary on both sides, a boundary being
  a position with a word character (a letter, a digit or the underscore) on exactly one
  side; any other pattern is read as a literal.
\<close>

definition word_char :: "char \<Rightarrow> bool" where
  "word_char c \<longleftrightarrow>
     c \<in> set ''abcdefghijklmnopqrstuvwxyzABCDEFGHIJKLMNOPQRSTUVWXYZ0123456789_''"

definition boundary_at :: "string \<Rightarrow> nat \<Rightarrow> bool" where
  "boundary_at s i \<longleftrightarrow>
     (0 < i \<and> i \<le> length s \<and> word_char (s ! (i - 1))) \<noteq> (i < length s \<and> word_char (s ! i))"

definition word_engine :: "(bool \<times> string \<times> bool) RegExpEngine" where
  "word_engine =
     \<lparr>RegExp = (\<lambda>pattern ignoreCase.
         (let n = length pattern
          in if 4 \<le> n \<and> take 2 pattern = word_boundary \<and> drop (n - 2) pattern = word_boundary
             then Some (True, take (n - 4) (drop 2 pattern), ignoreCase)
             else Some (False, pattern, ignoreCase))),
      exec = (\<lambda>regex s.
         (let ignoreCase = snd (snd regex);
              s' = (if ignoreCase then toLowerCase s else s);
              literal = (if ignoreCase then toLowerCase (fst (snd regex)) else fst (snd regex))
          in List.find
               (\<lambda>k. take (length literal) (drop k s') = literal \<and>
                    (if fst regex then boundary_at s' k \<and> boundary_at s' (k + length literal)
                     else True))
               [0..<Suc (length s')]))\<rparr>"

definition word_instance :: "(string \<times> string) list CodeSandboxInstance" where
  "word_instance =
     \<lparr>cs_sandboxId = ''33s7n6'', cs_fileSystem = Some [(''/w.txt'', ''foobar foo'')],
      cs_initialized = True, cs_error = None\<rparr>"

text \<open>A remote file system with two files, one of them under \<open>node_modules\<close>.\<close>

definition sample_tree :: "(string \<times> string) list" where
  "sample_tree =
     [(''/a.txt'', ''foo bar'' @ [CHR 0x0A] @ ''baz foo''),
      (''/node_modules/x.js'', ''foo'')]"

definition sample_api :: "(string \<times> string) list CodeSandboxApi" where
  "sample_api =
     \<lparr>readTextFile = (\<lambda>h p. case map_of h p of
                                None \<Rightarrow> Inl (Error ''ENOENT'') | Some c \<Rightarrow> Inr c),
      writeTextFile = (\<lambda>h p c. (Inr (), AList.update p c h)),
      api_readdir = (\<lambda>h p. Inr (remdups (map (\<lambda>k. takeWhile (\<lambda>x. x \<noteq> CHR ''/'')
                                   (drop (length (dir_prefix p)) k))
                              (filter (\<lambda>k. startsWith k (dir_prefix p)) (map fst h))))),
      api_stat = (\<lambda>h p. case map_of h p of
                            Some c \<Rightarrow> Inr \<lparr>isFile = True, isDirectory = False, stat_size = length c\<rparr>
                          | None \<Rightarrow>
                              if \<exists>k \<in> set (map fst h). startsWith k (dir_prefix p)
                              then Inr \<lparr>isFile = False, isDirectory = True, stat_size = 0\<rparr>
                              else Inl (Error ''ENOENT'')),
      api_mkdir = (\<lambda>h p options. (Inr (), h)),
      api_remove = (\<lambda>h p options. (if map_of h p = None then Inl (Error ''ENOENT'') else Inr (),
                                     AList.delete p h))\<rparr>"

definition sample_instance :: "(string \<times> string) list CodeSandboxInstance" where
  "sample_instance =
     \<lparr>cs_sandboxId = ''33s7n6'', cs_fileSystem = Some sample_tree, cs_initialized = True,
      cs_error = None\<rparr>"

definition plain_options :: CodeSandboxSearchOptions where
  "plain_options =
     \<lparr>folders = Some [''/''], includePattern = None, excludePattern = None, maxResults = None,
      useRegExp = False, caseSensitive = False, wholeWord = False\<rparr>"

definition sample_text :: string where
  "sample_text = ''foo bar'' @ [CHR 0x0A] @ ''baz foo''"

definition sample_matches :: "SearchMatch list" where
  "sample_matches =
     [\<lparr>m_path = ''/a.txt'', lineNumber = 1, previewText = ''foo bar'',
       matchCharStart = 0, matchCharEnd = 3\<rparr>,
      \<lparr>m_path = ''/a.txt'', lineNumber = 2, previewText = ''baz foo'',
       matchCharStart = 4, matchCharEnd = 7\<rparr>]"

definition search_options :: CodeSandboxSearchOptions where
  \<comment> \<open>the exclusion \<open>handleSearch\<close> asks for, with a cap of one result\<close>
  "search_options =
     \<lparr>folders = Some [''/''], includePattern = None,
      excludePattern = Some ''node_modules|.git'', maxResults = Some 1,
      useRegExp = False, caseSensitive = False, wholeWord = False\<rparr>"

definition regex_result :: "(string \<times> SearchMatch list) list" where
  "regex_result =
     [(''/a.txt'',
       [\<lparr>m_path = ''/a.txt'', lineNumber = 1, previewText = ''foo bar'',
         matchCharStart = 4, matchCharEnd = 10\<rparr>])]"

text \<open>A browser and a server environment, a remote file system that holds nothing, and a
  manager fresh from its constructor.\<close>

definition browser_env :: "unit Env" where
  "browser_env = \<lparr>SSR = False, VITE_CSB_API_KEY = Some ''csb_key'', hot_codesandbox = None\<rparr>"

definition server_env :: "unit Env" where
  "server_env = \<lparr>SSR = True, VITE_CSB_API_KEY = Some ''csb_key'', hot_codesandbox = None\<rparr>"

definition unit_api :: "unit CodeSandboxApi" where
  "unit_api =
     \<lparr>readTextFile = (\<lambda>h p. Inl (Error ''ENOENT'')),
      writeTextFile = (\<lambda>h p c. (Inr (), h)),
      api_readdir = (\<lambda>h p. Inr []),
      api_stat = (\<lambda>h p. Inl (Error ''ENOENT'')),
      api_mkdir = (\<lambda>h p options. (Inr (), h)),
      api_remove = (\<lambda>h p options. (Inr (), h))\<rparr>"

definition fresh_manager :: "(unit, unit) HybridFileManager" where
  "fresh_manager = new_HybridFileManager 0 ''{}'' ''export default App''"

definition connected_sandbox :: "Sandbox timed" where
  \<comment> \<open>the sandbox is created after 1.2 seconds and \<open>connect()\<close> succeeds\<close>
  "connected_sandbox = SettlesAt 1200 (Inr \<lparr>sandbox_id = ''33s7n6'', connect = Fulfilled ()\<rparr>)"

definition late_sandbox :: "Sandbox timed" where
  \<comment> \<open>the sandbox is created one millisecond after the timer has fired\<close>
  "late_sandbox = SettlesAt 8001 (Inr \<lparr>sandbox_id = ''33s7n6'', connect = Fulfilled ()\<rparr>)"

definition hanging_connect :: "Sandbox timed" where
  \<comment> \<open>the sandbox is created after 1.2 seconds, and its \<open>connect()\<close> never settles\<close>
  "hanging_connect = SettlesAt 1200 (Inr \<lparr>sandbox_id = ''33s7n6'', connect = Pending\<rparr>)"

text \<open>A small store for the examples: a directory, two files below it and a sibling whose name
  only starts with the same letters.\<close>

definition sample_files :: files where
  "sample_files =
     [(''/d'', directory_node 0 ''/d''),
      (''/d/a.txt'', \<lparr>path = ''/d/a.txt'', content = ''x'', isBinary = False, lastModified = 0\<rparr>),
      (''/d/sub/b.txt'',
         \<lparr>path = ''/d/sub/b.txt'', content = ''y'', isBinary = False, lastModified = 0\<rparr>),
      (''/dx'', \<lparr>path = ''/dx'', content = ''z'', isBinary = False, lastModified = 0\<rparr>)]"

section \<open>Properties of the local file system\<close>

lemma writeFile_result:
  "\<exists>fs0. local_writeFile now fs p c =
      (Inr (),
       AList.update p \<lparr>path = p, content = c, isBinary = False, lastModified = now\<rparr> fs0)"
  by (auto simp: local_writeFile_def Let_def local_mkdir_def split: prod.splits sum.splits)

text \<open>
  Claim C3. On the local provider, for every path \<open>p\<close> and content \<open>c\<close> (and every
  state of the store), \<open>writeFile(p, c)\<close> returns normally and a following \<open>readFile(p)\<close>
  returns exactly \<open>c\<close>.
\<close>

theorem local_writeFile_readFile:
  "fst (local_writeFile now fs p c) = Inr () \<and>
   local_readFile (snd (local_writeFile now fs p c)) p = Inr c"
proof -
  obtain fs0 where w: "local_writeFile now fs p c =
      (Inr (),
       AList.update p \<lparr>path = p, content = c, isBinary = False, lastModified = now\<rparr> fs0)"
    using writeFile_result by blast
  show ?thesis
    by (simp add: w local_readFile_def update_conv')
qed

lemma map_of_delete_prefixed:
  "map_of (delete_prefixed prefix ks fs) q =
     (if q \<in> set ks \<and> startsWith q prefix then None else map_of fs q)"
  by (induction ks arbitrary: fs) (auto simp: delete_conv')

lemma deleteDirectory_recursive_map:
  assumes "has fs p"
  shows "map_of (snd (local_deleteDirectory fs p True)) q =
           (if q = p \<or> startsWith q (dir_prefix p) then None else map_of fs q)"
proof -
  have "map_of (AList.delete p fs) q = None" if "q \<notin> set (map fst (AList.delete p fs))"
    using that by (simp add: map_of_eq_None_iff)
  then show ?thesis
    using assms
    by (auto simp: local_deleteDirectory_def Let_def map_of_delete_prefixed delete_conv')
qed

text \<open>
  Claim C4. Let \<open>p\<close> be a node of the local store (\<open>deleteDirectory\<close> throws
  "Directory not found" otherwise). If \<open>readdir(p)\<close> lists at least one immediate child,
  \<open>deleteDirectory(p, false)\<close> throws "Directory not empty" and leaves the store as it was.
  \<open>deleteDirectory(p, true)\<close> returns normally; afterwards \<open>exists\<close> is false for \<open>p\<close> and
  for every path under \<open>p\<close>, that is every path starting with the directory prefix of \<open>p\<close>
  (\<open>p + '/'\<close>, or \<open>'/'\<close> for the root); every other path keeps its node.
\<close>

theorem local_deleteDirectory_spec:
  assumes "has fs p"
  shows "(local_readdir fs p \<noteq> [] \<longrightarrow>
            local_deleteDirectory fs p False = (Inl (Error (''Directory not empty: '' @ p)), fs)) \<and>
         fst (local_deleteDirectory fs p True) = Inr () \<and>
         \<not> local_exists (snd (local_deleteDirectory fs p True)) p \<and>
         (\<forall>q. startsWith q (dir_prefix p) \<longrightarrow>
              \<not> local_exists (snd (local_deleteDirectory fs p True)) q) \<and>
         (\<forall>q. q \<noteq> p \<and> \<not> startsWith q (dir_prefix p) \<longrightarrow>
              map_of (snd (local_deleteDirectory fs p True)) q = map_of fs q)"
proof -
  have nonrec: "local_readdir fs p \<noteq> [] \<longrightarrow>
      local_deleteDirectory fs p False = (Inl (Error (''Directory not empty: '' @ p)), fs)"
    using assms by (simp add: local_deleteDirectory_def)
  have ok: "fst (local_deleteDirectory fs p True) = Inr ()"
    using assms by (simp add: local_deleteDirectory_def Let_def)
  show ?thesis
    using nonrec ok deleteDirectory_recursive_map [OF assms]
    by (simp add: local_exists_def has_def)
qed

theorem local_deleteDirectory_spec_witness:
  "has sample_files ''/d'' \<and> local_readdir sample_files ''/d'' = [''a.txt''] \<and>
   local_deleteDirectory sample_files ''/d'' False =
     (Inl (Error ''Directory not empty: /d''), sample_files) \<and>
   fst (local_deleteDirectory sample_files ''/d'' True) = Inr () \<and>
   \<not> local_exists (snd (local_deleteDirectory sample_files ''/d'' True)) ''/d'' \<and>
   \<not> local_exists (snd (local_deleteDirectory sample_files ''/d'' True)) ''/d/sub/b.txt'' \<and>
   map_of (snd (local_deleteDirectory sample_files ''/d'' True)) ''/dx'' =
     map_of sample_files ''/dx''"
proof -
  have h: "has sample_files ''/d''"
    by (simp add: has_def sample_files_def)
  have r: "local_readdir sample_files ''/d'' = [''a.txt'']"
    by (simp add: local_readdir_def sample_files_def dir_prefix_def startsWith_def
        substring_from_def str_includes_def indexOf_def)
  have s1: "startsWith ''/d/sub/b.txt'' (dir_prefix ''/d'')"
    by (simp add: dir_prefix_def startsWith_def)
  have s2: "''/dx'' \<noteq> ''/d'' \<and> \<not> startsWith ''/dx'' (dir_prefix ''/d'')"
    by (simp add: dir_prefix_def startsWith_def)
  from local_deleteDirectory_spec [OF h] r s1 s2 h show ?thesis
    by simp
qed

section \<open>Properties of the searches\<close>

lemma find_map: "List.find P (map f xs) = map_option f (List.find (P \<circ> f) xs)"
  by (induction xs) auto

lemma indexOf_from_first_occurrence:
  "indexOf_from i s q =
     (case first_occurrence s q of None \<Rightarrow> - 1 | Some k \<Rightarrow> int (i + k))"
proof (induction s arbitrary: i)
  case Nil
  then show ?case by (simp add: first_occurrence_def)
next
  case (Cons c cs)
  have upt: "[0..<Suc (length (c # cs))] = 0 # map Suc [0..<Suc (length cs)]"
    by (simp add: map_Suc_upt upt_conv_Cons del: upt_Suc)
  have fo: "first_occurrence (c # cs) q =
      (if startsWith (c # cs) q then Some 0 else map_option Suc (first_occurrence cs q))"
    unfolding first_occurrence_def upt
    by (simp add: find_map startsWith_def comp_def del: upt_Suc)
  show ?case
    by (simp add: fo Cons.IH split: option.splits)
qed

lemma indexOf_first_occurrence:
  "indexOf s q = (case first_occurrence s q of None \<Rightarrow> - 1 | Some k \<Rightarrow> int k)"
  by (simp add: indexOf_def indexOf_from_first_occurrence split: option.splits)

lemma enumerate_Cons: "enumerate i (x # xs) = (i, x) # enumerate (Suc i) xs"
  by simp

lemma line_matchIndex_plain:
  "\<not> caseSensitive options \<Longrightarrow> \<not> useRegExp options \<Longrightarrow> \<not> wholeWord options \<Longrightarrow>
   line_matchIndex E options query line = Inr (indexOf (toLowerCase line) (toLowerCase query))"
  by (simp add: line_matchIndex_def)

lemma scan_lines_plain:
  assumes "\<not> caseSensitive options" "\<not> useRegExp options" "\<not> wholeWord options"
  shows "scan_lines E options filePath query i lines acc =
     Inr (acc @ concat (map (folded_line_match filePath query) (enumerate i lines)))"
proof (induction lines arbitrary: i acc)
  case Nil
  then show ?case by simp
next
  case (Cons line lines)
  show ?case
    by (simp add: line_matchIndex_plain [OF assms] Cons.IH indexOf_first_occurrence
        folded_line_match_def split: option.splits)
qed

lemma mock_scan_lines_plain:
  assumes "\<not> caseSensitive options"
  shows "mock_scan_lines options filePath query i lines acc =
     acc @ concat (map (folded_line_match filePath query) (enumerate i lines))"
proof (induction lines arbitrary: i acc)
  case Nil
  then show ?case by simp
next
  case (Cons line lines)
  show ?case
    using assms
    by (simp add: Cons.IH indexOf_first_occurrence Let_def
        folded_line_match_def split: option.splits)
qed

lemma searchInFile_plain:
  assumes plain: "\<not> caseSensitive options" "\<not> useRegExp options" "\<not> wholeWord options"
    and excl: "pattern_test E (excludePattern options) filePath = Inr False"
    and incl: "\<not> pattern_set (includePattern options) \<or>
               pattern_test E (includePattern options) filePath = Inr True"
    and rd: "cs_readFile A inst filePath = Inr text" "text \<noteq> []"
  shows "searchInFile E A inst filePath query options st =
     (if folded_matches filePath query text = [] then st
      else st\<lparr>calls := calls st @ [(filePath, folded_matches filePath query text)],
              results := results st @ folded_matches filePath query text\<rparr>)"
proof -
  have i: "\<exists>b. pattern_test E (includePattern options) filePath = Inr b \<and>
             (pattern_set (includePattern options) \<longrightarrow> b)"
    using incl by (auto simp: pattern_test_def pattern_set_def split: option.splits)
  then obtain b where b: "pattern_test E (includePattern options) filePath = Inr b"
      "pattern_set (includePattern options) \<longrightarrow> b"
    by blast
  show ?thesis
    using b rd
    by (auto simp add: searchInFile_def excl scan_lines_plain [OF plain] folded_matches_def)
qed

lemma mock_scan_files_plain:
  assumes "\<not> caseSensitive options"
  shows "mock_scan_files options query files rs =
     rs @ concat (map (\<lambda>e. folded_matches (fst e) query (snd e)) files)"
  by (induction files arbitrary: rs)
     (auto simp: mock_scan_lines_plain [OF assms] folded_matches_def)

lemma folded_matches_path: "m \<in> set (folded_matches filePath query text) \<Longrightarrow> m_path m = filePath"
  by (auto simp: folded_matches_def folded_line_match_def split: option.splits)

lemma update_absent: "k \<notin> fst ` set g \<Longrightarrow> AList.update k v g = g @ [(k, v)]"
  by (induction g) auto

lemma update_last_key: "k \<notin> fst ` set g \<Longrightarrow> AList.update k v (g @ [(k, w)]) = g @ [(k, v)]"
  by (induction g) auto

lemma map_of_last_key: "k \<notin> fst ` set g \<Longrightarrow> map_of (g @ [(k, w)]) k = Some w"
  by (induction g) auto

lemma group_results_same_path:
  assumes "k \<notin> fst ` set g" "\<forall>m \<in> set ms. m_path m = k" "k \<notin> set Object_prototype_keys"
  shows "group_results (ms @ rest) (g @ [(k, ms0)]) = group_results rest (g @ [(k, ms0 @ ms)])"
  using assms(2)
proof (induction ms arbitrary: ms0)
  case Nil
  then show ?case by simp
next
  case (Cons m ms)
  have k: "m_path m = k" using Cons.prems by simp
  have "group_results ((m # ms) @ rest) (g @ [(k, ms0)]) =
        group_results (ms @ rest) (g @ [(k, ms0 @ [m])])"
    using assms(1) assms(3)
    by (simp add: k has_def map_of_last_key update_last_key del: map_of_append)
  also have "\<dots> = group_results rest (g @ [(k, (ms0 @ [m]) @ ms)])"
    using Cons.prems by (intro Cons.IH) simp
  finally show ?case by simp
qed

lemma group_results_new_path:
  assumes "k \<notin> fst ` set g" "\<forall>m \<in> set ms. m_path m = k" "ms \<noteq> []"
    "k \<notin> set Object_prototype_keys"
  shows "group_results (ms @ rest) g = group_results rest (g @ [(k, ms)])"
proof -
  obtain m ms' where ms: "ms = m # ms'"
    using assms(3) by (cases ms) auto
  have k: "m_path m = k" using assms(2) ms by simp
  have none: "map_of g k = None"
    using assms(1) by (simp add: map_of_eq_None_iff)
  have "group_results (ms @ rest) g = group_results (ms' @ rest) (g @ [(k, [m])])"
    using assms(1) assms(4)
    by (simp add: ms k has_def none update_absent map_of_last_key update_last_key
        del: map_of_append)
  also have "\<dots> = group_results rest (g @ [(k, [m] @ ms')])"
    using assms(2) ms by (intro group_results_same_path [OF assms(1) _ assms(4)]) simp
  finally show ?thesis by (simp add: ms)
qed

lemma group_results_inherited:
  assumes "\<forall>m \<in> set ms. m_path m = k" "ms \<noteq> []" "k \<in> set Object_prototype_keys"
  shows "group_results (ms @ rest) g = Inl push_is_not_a_function"
proof -
  obtain m ms' where ms: "ms = m # ms'"
    using assms(2) by (cases ms) auto
  have "m_path m = k" using assms(1) ms by simp
  then show ?thesis using assms(3) by (simp add: ms)
qed

lemma group_results_files:
  assumes "distinct (map fst files)" "fst ` set files \<inter> fst ` set g = {}"
  shows "group_results (concat (map (\<lambda>e. folded_matches (fst e) query (snd e)) files)) g =
     (if \<exists>e \<in> set files. fst e \<in> set Object_prototype_keys \<and>
            folded_matches (fst e) query (snd e) \<noteq> []
      then Inl push_is_not_a_function
      else Inr (g @ concat (map (file_batch query) files)))"
  using assms
proof (induction files arbitrary: g)
  case Nil
  then show ?case by simp
next
  case (Cons e files)
  let ?ms = "folded_matches (fst e) query (snd e)"
  have paths: "\<forall>m \<in> set ?ms. m_path m = fst e"
    by (simp add: folded_matches_path)
  show ?case
  proof (cases "?ms = []")
    case True
    then have "file_batch query e = []"
      by (simp add: file_batch_def)
    then show ?thesis
      using True Cons.prems Cons.IH [of g] by simp
  next
    case False
    then have batch: "file_batch query e = [(fst e, ?ms)]"
      by (simp add: file_batch_def)
    show ?thesis
    proof (cases "fst e \<in> set Object_prototype_keys")
      case True
      then show ?thesis
        using False by (auto simp: group_results_inherited [OF paths False True])
    next
      case inherited: False
      have notin: "fst e \<notin> fst ` set g"
        using Cons.prems(2) by auto
      have disj: "fst ` set files \<inter> fst ` set (g @ [(fst e, ?ms)]) = {}"
        using Cons.prems by auto
      have dist: "distinct (map fst files)"
        using Cons.prems(1) by simp
      show ?thesis
        using False inherited Cons.IH [OF dist disj]
        by (simp add: group_results_new_path [OF notin paths False inherited] batch)
    qed
  qed
qed

lemma mock_textSearch_plain:
  assumes "\<not> caseSensitive options" "distinct (map fst mockFiles)"
  shows "mock_textSearch mockFiles query options =
     (if \<exists>e \<in> set mockFiles. fst e \<in> set Object_prototype_keys \<and>
            folded_matches (fst e) query (snd e) \<noteq> []
      then Inl push_is_not_a_function
      else Inr (object_entries (concat (map (file_batch query) mockFiles))))"
  using group_results_files [OF assms(2), of "[]" query]
  by (simp add: mock_textSearch_def mock_scan_files_plain [OF assms(1)])

lemma searchEntries_preserves:
  assumes step: "\<And>fp s. I s \<Longrightarrow> I (searchInFile E A inst fp query options s)"
    and folder: "\<And>fp s s'. I s \<Longrightarrow>
                   searchInFolder fuel E A inst fp query options s = Some s' \<Longrightarrow> I s'"
  shows "I st \<Longrightarrow> searchEntries fuel E A inst folderPath entries query options st = Some st' \<Longrightarrow>
         I st'"
proof (induction entries arbitrary: st)
  case Nil
  then show ?case by simp
next
  case (Cons entry entries)
  let ?fullPath = "collapse_slashes (folderPath @ ''/'' @ entry)"
  show ?case
  proof (cases "cs_stat A inst ?fullPath")
    case (Inl e)
    then have "searchEntries fuel E A inst folderPath entries query options st = Some st'"
      using Cons.prems(2) by (simp add: Let_def)
    then show ?thesis by (rule Cons.IH [OF Cons.prems(1)])
  next
    case (Inr stat)
    show ?thesis
    proof (cases "isDirectory stat")
      case True
      then obtain s1 where
        a: "searchInFolder fuel E A inst ?fullPath query options st = Some s1" and
        b: "searchEntries fuel E A inst folderPath entries query options s1 = Some st'"
        using Cons.prems(2) Inr by (simp add: Let_def split: option.splits)
      have "I s1" by (rule folder [OF Cons.prems(1) a])
      then show ?thesis using b by (rule Cons.IH)
    next
      case False
      show ?thesis
      proof (cases "isFile stat")
        case True
        then have b: "searchEntries fuel E A inst folderPath entries query options
               (searchInFile E A inst ?fullPath query options st) = Some st'"
          using Cons.prems(2) Inr \<open>\<not> isDirectory stat\<close> by (simp add: Let_def)
        have "I (searchInFile E A inst ?fullPath query options st)"
          by (rule step [OF Cons.prems(1)])
        then show ?thesis using b by (rule Cons.IH)
      next
        case False
        then have "searchEntries fuel E A inst folderPath entries query options st = Some st'"
          using Cons.prems(2) Inr \<open>\<not> isDirectory stat\<close> by (simp add: Let_def)
        then show ?thesis by (rule Cons.IH [OF Cons.prems(1)])
      qed
    qed
  qed
qed

lemma searchInFolder_preserves:
  assumes step: "\<And>fp s. I s \<Longrightarrow> I (searchInFile E A inst fp query options s)"
  shows "I st \<Longrightarrow> searchInFolder fuel E A inst folderPath query options st = Some st' \<Longrightarrow> I st'"
proof (induction fuel arbitrary: st st' folderPath)
  case 0
  then show ?case by simp
next
  case (Suc fuel)
  show ?case
  proof (cases "cs_readdir A inst folderPath")
    case (Inl e)
    then show ?thesis using Suc.prems by simp
  next
    case (Inr entries)
    then have run: "searchEntries fuel E A inst folderPath entries query options st = Some st'"
      using Suc.prems(2) by simp
    show ?thesis
      by (rule searchEntries_preserves [where I = I, OF step Suc.IH Suc.prems(1) run])
  qed
qed

lemma searchFolders_preserves:
  assumes step: "\<And>fp s. I s \<Longrightarrow> I (searchInFile E A inst fp query options s)"
  shows "I st \<Longrightarrow> searchFolders fuel E A inst fs query options st = Some st' \<Longrightarrow> I st'"
proof (induction fs arbitrary: st)
  case Nil
  then show ?case by simp
next
  case (Cons f fs)
  from Cons.prems(2) obtain s1 where
    a: "searchInFolder fuel E A inst f query options st = Some s1" and
    b: "searchFolders fuel E A inst fs query options s1 = Some st'"
    by (auto split: option.splits)
  have "I s1"
    by (rule searchInFolder_preserves [where I = I, OF step Cons.prems(1) a])
  then show ?case
    using Cons.IH b by blast
qed

lemma ends_ok_Nil: "ends_ok query []"
  by (simp add: ends_ok_def)

lemma ends_ok_snoc:
  "ends_ok query (ms @ [m]) \<longleftrightarrow>
     ends_ok query ms \<and> matchCharEnd m = matchCharStart m + int (length query)"
  by (auto simp: ends_ok_def)

lemma ends_ok_Cons:
  "ends_ok query (m # ms) \<longleftrightarrow>
     matchCharEnd m = matchCharStart m + int (length query) \<and> ends_ok query ms"
  by (auto simp: ends_ok_def)

lemma scan_lines_ends:
  "ends_ok query acc \<Longrightarrow> scan_lines E options filePath query i lines acc = Inr ms \<Longrightarrow>
   ends_ok query ms"
proof (induction lines arbitrary: i acc)
  case Nil
  then show ?case by simp
next
  case (Cons line lines)
  from Cons.prems(2) obtain k where
    k: "line_matchIndex E options query line = Inr k" and
    run: "scan_lines E options filePath query (Suc i) lines
            (if k \<noteq> - 1 then
               acc @ [\<lparr>m_path = filePath, lineNumber = int i + 1, previewText = line,
                        matchCharStart = k, matchCharEnd = k + int (length query)\<rparr>]
             else acc) = Inr ms"
    by (auto split: sum.splits)
  show ?case
    by (rule Cons.IH [OF _ run]) (simp add: ends_ok_snoc Cons.prems(1))
qed

lemma searchInFile_ends:
  assumes "\<forall>c \<in> set (calls st). ends_ok query (snd c)"
  shows "\<forall>c \<in> set (calls (searchInFile E A inst filePath query options st)). ends_ok query (snd c)"
proof -
  have "ends_ok query ms"
    if "scan_lines E options filePath query 0 lines [] = Inr ms" for lines ms
    using scan_lines_ends [OF ends_ok_Nil that] .
  then show ?thesis
    using assms
    by (auto simp: searchInFile_def split: sum.splits bool.splits if_splits)
qed

lemma cs_textSearch_ends:
  assumes "cs_textSearch fuel E A inst query options = Some (Inr cs)"
  shows "\<forall>c \<in> set cs. ends_ok query (snd c)"
proof -
  from assms obtain fs st where
    run: "searchFolders fuel E A inst fs query options \<lparr>results = [], calls = []\<rparr> = Some st"
    and cs: "cs = calls st"
    by (auto simp: cs_textSearch_def Let_def split: if_splits option.splits)
  have "\<forall>c \<in> set (calls st). ends_ok query (snd c)"
    by (rule searchFolders_preserves
          [where I = "\<lambda>s. \<forall>c \<in> set (calls s). ends_ok query (snd c)", OF _ _ run])
       (simp_all add: searchInFile_ends)
  then show ?thesis by (simp add: cs)
qed

lemma mock_scan_lines_ends:
  "ends_ok query rs \<Longrightarrow> ends_ok query (mock_scan_lines options filePath query i lines rs)"
  by (induction lines arbitrary: i rs) (simp_all add: ends_ok_snoc Let_def)

lemma mock_scan_files_ends:
  "ends_ok query rs \<Longrightarrow> ends_ok query (mock_scan_files options query files rs)"
  by (induction files arbitrary: rs) (auto simp: mock_scan_lines_ends)

lemma set_update_subset: "set (AList.update k v g) \<subseteq> insert (k, v) (set g)"
  by (induction g) auto

lemma update_ends:
  assumes "\<forall>c \<in> set g. ends_ok query (snd c)" "ends_ok query v"
  shows "\<forall>c \<in> set (AList.update k v g). ends_ok query (snd c)"
  using assms set_update_subset [of k v g] by auto

lemma lookup_ends:
  assumes "\<forall>c \<in> set g. ends_ok query (snd c)"
  shows "ends_ok query (case map_of g k of None \<Rightarrow> [] | Some ms \<Rightarrow> ms)"
proof (cases "map_of g k")
  case None
  then show ?thesis by (simp add: ends_ok_Nil)
next
  case (Some ms)
  then have "(k, ms) \<in> set g" by (rule map_of_SomeD)
  then show ?thesis using assms Some by auto
qed

lemma group_results_ends:
  "ends_ok query rs \<Longrightarrow> \<forall>c \<in> set g. ends_ok query (snd c) \<Longrightarrow>
   group_results rs g = Inr g' \<Longrightarrow> \<forall>c \<in> set g'. ends_ok query (snd c)"
proof (induction rs arbitrary: g)
  case Nil
  then show ?case by simp
next
  case (Cons r rs)
  let ?g1 = "if \<not> has g (m_path r) then AList.update (m_path r) [] g else g"
  let ?old = "case map_of ?g1 (m_path r) of None \<Rightarrow> [] | Some ms \<Rightarrow> ms"
  have r: "matchCharEnd r = matchCharStart r + int (length query)" and rs: "ends_ok query rs"
    using Cons.prems(1) by (simp_all add: ends_ok_Cons)
  have run: "group_results rs (AList.update (m_path r) (?old @ [r]) ?g1) = Inr g'"
    using Cons.prems(3) by (simp add: Let_def split: if_splits)
  have g1: "\<forall>c \<in> set ?g1. ends_ok query (snd c)"
  proof (cases "has g (m_path r)")
    case True
    then show ?thesis using Cons.prems(2) by simp
  next
    case False
    then show ?thesis using update_ends [OF Cons.prems(2) ends_ok_Nil, of "m_path r"] by simp
  qed
  have new: "ends_ok query (?old @ [r])"
    using lookup_ends [OF g1] r by (simp add: ends_ok_snoc)
  have g2: "\<forall>c \<in> set (AList.update (m_path r) (?old @ [r]) ?g1). ends_ok query (snd c)"
    by (rule update_ends [OF g1 new])
  show ?case
    by (rule Cons.IH [OF rs g2 run])
qed

lemma set_object_entries: "set (object_entries obj) = set obj"
  by (auto simp: object_entries_def)

lemma mock_textSearch_ends:
  assumes "mock_textSearch mockFiles query options = Inr cs"
  shows "\<forall>c \<in> set cs. ends_ok query (snd c)"
proof -
  from assms obtain g where
    g: "group_results (mock_scan_files options query mockFiles []) [] = Inr g" and
    cs: "cs = object_entries g"
    by (auto simp: mock_textSearch_def split: sum.splits)
  have "\<forall>c \<in> set g. ends_ok query (snd c)"
    by (rule group_results_ends [OF _ _ g]) (simp_all add: mock_scan_files_ends ends_ok_Nil)
  then show ?thesis by (simp add: cs set_object_entries)
qed


text \<open>
  Claim C5 as stated fails in whole-word mode, which is a search that is case-insensitive
  and not by regular expression: in the line \<open>foobar foo\<close> the query \<open>FOO\<close> first occurs at
  offset 0, and the search reports the characters 7 to 10, where the word stands alone.
\<close>

theorem whole_word_not_first_occurrence:
  "\<not> caseSensitive (plain_options\<lparr>wholeWord := True\<rparr>) \<and>
   \<not> useRegExp (plain_options\<lparr>wholeWord := True\<rparr>) \<and>
   searchInFile word_engine sample_api word_instance ''/w.txt'' ''FOO''
       (plain_options\<lparr>wholeWord := True\<rparr>) \<lparr>results = [], calls = []\<rparr> =
     \<lparr>results =
        [\<lparr>m_path = ''/w.txt'', lineNumber = 1, previewText = ''foobar foo'',
          matchCharStart = 7, matchCharEnd = 10\<rparr>],
      calls =
        [(''/w.txt'',
          [\<lparr>m_path = ''/w.txt'', lineNumber = 1, previewText = ''foobar foo'',
            matchCharStart = 7, matchCharEnd = 10\<rparr>])]\<rparr> \<and>
   first_occurrence (toLowerCase ''foobar foo'') (toLowerCase ''FOO'') = Some 0"
  by code_simp

text \<open>
  Claim C5, as amended. With \<open>caseSensitive\<close>, \<open>useRegExp\<close> and \<open>wholeWord\<close> all off, the
  search of one file that is neither excluded nor filtered out and reads as a non-empty text
  hands the progress callback one batch, and only if something matched: for each line in
  order whose lower-cased copy contains the lower-cased query, the line itself as
  \<open>previewText\<close>, its number counted from 1, the offset of the first occurrence and that
  offset plus the length of the query. The mock instance's search, which reads neither
  \<open>useRegExp\<close> nor \<open>wholeWord\<close>, hands over the same batch for each of its files, one batch
  per file, in the order of \<open>Object.entries\<close>, unless a file with a match is named like a
  property of \<open>Object.prototype\<close>, in which case it throws. For the text of the two lines
  \<open>foo bar\<close> and \<open>baz foo\<close> and the query \<open>FOO\<close> the batch is line 1 at 0 to 3 and line 2
  at 4 to 7; for \<open>Hello from Bolt!\<close> and \<open>HELLO\<close> it is the line itself at 0 to 5.
\<close>

theorem plain_search_first_occurrence:
  assumes "\<not> caseSensitive options" "\<not> useRegExp options" "\<not> wholeWord options"
  shows
    "(pattern_test E (excludePattern options) filePath = Inr False \<and>
      (\<not> pattern_set (includePattern options) \<or>
         pattern_test E (includePattern options) filePath = Inr True) \<and>
      cs_readFile A inst filePath = Inr body \<and> body \<noteq> [] \<longrightarrow>
        searchInFile E A inst filePath query options st =
          (if folded_matches filePath query body = [] then st
           else st\<lparr>calls := calls st @ [(filePath, folded_matches filePath query body)],
                   results := results st @ folded_matches filePath query body\<rparr>)) \<and>
     (distinct (map fst mockFiles) \<longrightarrow>
        mock_textSearch mockFiles query options =
          (if \<exists>e \<in> set mockFiles. fst e \<in> set Object_prototype_keys \<and>
                 folded_matches (fst e) query (snd e) \<noteq> []
           then Inl push_is_not_a_function
           else Inr (object_entries (concat (map (file_batch query) mockFiles))))) \<and>
     folded_matches filePath ''FOO'' (''foo bar'' @ [CHR 0x0A] @ ''baz foo'') =
       [\<lparr>m_path = filePath, lineNumber = 1, previewText = ''foo bar'',
         matchCharStart = 0, matchCharEnd = 3\<rparr>,
        \<lparr>m_path = filePath, lineNumber = 2, previewText = ''baz foo'',
         matchCharStart = 4, matchCharEnd = 7\<rparr>] \<and>
     folded_matches filePath ''HELLO'' ''Hello from Bolt!'' =
       [\<lparr>m_path = filePath, lineNumber = 1, previewText = ''Hello from Bolt!'',
         matchCharStart = 0, matchCharEnd = 5\<rparr>]"
proof -
  have walk: "pattern_test E (excludePattern options) filePath = Inr False \<and>
      (\<not> pattern_set (includePattern options) \<or>
         pattern_test E (includePattern options) filePath = Inr True) \<and>
      cs_readFile A inst filePath = Inr body \<and> body \<noteq> [] \<longrightarrow>
        searchInFile E A inst filePath query options st =
          (if folded_matches filePath query body = [] then st
           else st\<lparr>calls := calls st @ [(filePath, folded_matches filePath query body)],
                   results := results st @ folded_matches filePath query body\<rparr>)"
    using searchInFile_plain [OF assms] by blast
  have mock: "distinct (map fst mockFiles) \<longrightarrow>
        mock_textSearch mockFiles query options =
          (if \<exists>e \<in> set mockFiles. fst e \<in> set Object_prototype_keys \<and>
                 folded_matches (fst e) query (snd e) \<noteq> []
           then Inl push_is_not_a_function
           else Inr (object_entries (concat (map (file_batch query) mockFiles))))"
    using mock_textSearch_plain [OF assms(1)] by blast
  have lower: "toLowerCase ''FOO'' = ''foo''" "toLowerCase ''foo bar'' = ''foo bar''"
    "toLowerCase ''baz foo'' = ''baz foo''" "toLowerCase ''HELLO'' = ''hello''"
    "toLowerCase ''Hello from Bolt!'' = ''hello from bolt!''"
    by code_simp+
  have a: "folded_matches filePath ''FOO'' (''foo bar'' @ [CHR 0x0A] @ ''baz foo'') =
       [\<lparr>m_path = filePath, lineNumber = 1, previewText = ''foo bar'',
         matchCharStart = 0, matchCharEnd = 3\<rparr>,
        \<lparr>m_path = filePath, lineNumber = 2, previewText = ''baz foo'',
         matchCharStart = 4, matchCharEnd = 7\<rparr>]"
    by (simp add: folded_matches_def folded_line_match_def first_occurrence_def lower upt_rec)
  have b: "folded_matches filePath ''HELLO'' ''Hello from Bolt!'' =
       [\<lparr>m_path = filePath, lineNumber = 1, previewText = ''Hello from Bolt!'',
         matchCharStart = 0, matchCharEnd = 5\<rparr>]"
    by (simp add: folded_matches_def folded_line_match_def first_occurrence_def lower upt_rec)
  show ?thesis
    using walk mock a b by blast
qed

lemma sample_readFile: "cs_readFile sample_api sample_instance ''/a.txt'' = Inr sample_text"
  by (simp add: cs_readFile_def sample_api_def sample_instance_def sample_tree_def sample_text_def)

theorem plain_search_witness:
  "\<not> caseSensitive plain_options \<and> \<not> useRegExp plain_options \<and> \<not> wholeWord plain_options \<and>
   searchInFile alternatives_engine sample_api sample_instance ''/a.txt'' ''FOO'' plain_options
       \<lparr>results = [], calls = []\<rparr> =
     \<lparr>results = sample_matches, calls = [(''/a.txt'', sample_matches)]\<rparr> \<and>
   mock_textSearch [(''/a.txt'', sample_text)] ''FOO'' plain_options =
     Inr [(''/a.txt'', sample_matches)]"
proof -
  have h1: "\<not> caseSensitive plain_options" and h2: "\<not> useRegExp plain_options"
    and h3: "\<not> wholeWord plain_options"
    by (simp_all add: plain_options_def)
  have p: "pattern_test alternatives_engine (excludePattern plain_options) ''/a.txt'' = Inr False"
    and i: "\<not> pattern_set (includePattern plain_options)"
    by (simp_all add: plain_options_def pattern_test_def pattern_set_def)
  have t: "sample_text \<noteq> []" and d: "distinct (map fst [(''/a.txt'', sample_text)])"
    by (simp_all add: sample_text_def)
  have k: "''/a.txt'' \<notin> set Object_prototype_keys"
    by (simp add: Object_prototype_keys_def)
  have e: "object_entries [(''/a.txt'', sample_matches)] = [(''/a.txt'', sample_matches)]"
    by (simp add: object_entries_def array_index_def digit_value_def)
  from plain_search_first_occurrence [OF h1 h2 h3, where E = alternatives_engine
      and filePath = "''/a.txt''" and A = sample_api and inst = sample_instance
      and body = sample_text and query = "''FOO''" and st = "\<lparr>results = [], calls = []\<rparr>"
      and mockFiles = "[(''/a.txt'', sample_text)]"]
    h1 h2 h3 p i t d k sample_readFile
  show ?thesis
    by (simp add: file_batch_def sample_matches_def sample_text_def e [unfolded sample_matches_def])
qed

text \<open>
  Claim C10. Every match the walk-based search or the mock search hands to the progress
  callback has \<open>matchCharEnd = matchCharStart + query.length\<close>, whatever the options and
  whatever the regular-expression engine answers: in plain, whole-word and regular-expression
  mode alike the end is computed from the length of the query as typed.
\<close>

theorem matchCharEnd_is_start_plus_query_length:
  "(cs_textSearch fuel E A inst query options = Some (Inr cs) \<longrightarrow>
      (\<forall>c \<in> set cs. \<forall>m \<in> set (snd c).
          matchCharEnd m = matchCharStart m + int (length query))) \<and>
   (\<forall>c \<in> set (calls (searchInFile E A inst filePath query options \<lparr>results = [], calls = []\<rparr>)).
      \<forall>m \<in> set (snd c). matchCharEnd m = matchCharStart m + int (length query)) \<and>
   (mock_textSearch mockFiles query options = Inr mcs \<longrightarrow>
      (\<forall>c \<in> set mcs. \<forall>m \<in> set (snd c).
          matchCharEnd m = matchCharStart m + int (length query)))"
proof -
  have one: "\<forall>c \<in> set (calls (searchInFile E A inst filePath query options
                \<lparr>results = [], calls = []\<rparr>)). ends_ok query (snd c)"
    by (rule searchInFile_ends) simp
  show ?thesis
    using cs_textSearch_ends [of fuel E A inst query options cs] one
      mock_textSearch_ends [of mockFiles query options mcs]
    unfolding ends_ok_def by blast
qed

lemma regex_search_run:
  "cs_textSearch 2 alternatives_engine sample_api sample_instance ''zz|bar''
     (plain_options\<lparr>useRegExp := True\<rparr>) = Some (Inr regex_result)"
  by code_simp

theorem matchCharEnd_witness:
  "cs_textSearch 2 alternatives_engine sample_api sample_instance ''zz|bar''
     (plain_options\<lparr>useRegExp := True\<rparr>) =
     Some (Inr [(''/a.txt'',
       [\<lparr>m_path = ''/a.txt'', lineNumber = 1, previewText = ''foo bar'',
         matchCharStart = 4, matchCharEnd = 4 + int (length ''zz|bar'')\<rparr>])]) \<and>
   length ''bar'' = 3 \<and> length ''zz|bar'' = 6"
  using matchCharEnd_is_start_plus_query_length [where fuel = 2 and E = alternatives_engine
      and A = sample_api and inst = sample_instance and query = "''zz|bar''"
      and options = "plain_options\<lparr>useRegExp := True\<rparr>" and cs = regex_result]
    regex_search_run
  by (simp add: regex_result_def)

lemma searchInFile_excluded:
  "pattern_test E (excludePattern options) filePath = Inr True \<Longrightarrow>
   searchInFile E A inst filePath query options st = st"
  by (simp add: searchInFile_def)

lemma searchInFile_calls_not_excluded:
  assumes "\<forall>c \<in> set (calls st). pattern_test E (excludePattern options) (fst c) = Inr False"
  shows "\<forall>c \<in> set (calls (searchInFile E A inst fp query options st)).
           pattern_test E (excludePattern options) (fst c) = Inr False"
  using assms
  by (auto simp: searchInFile_def split: sum.splits bool.splits if_splits)

lemma cs_textSearch_not_excluded:
  assumes "cs_textSearch fuel E A inst query options = Some (Inr cs)"
  shows "\<forall>c \<in> set cs. pattern_test E (excludePattern options) (fst c) = Inr False"
proof -
  from assms obtain fs st where
    run: "searchFolders fuel E A inst fs query options \<lparr>results = [], calls = []\<rparr> = Some st"
    and cs: "cs = calls st"
    by (auto simp: cs_textSearch_def Let_def split: if_splits option.splits)
  have "\<forall>c \<in> set (calls st). pattern_test E (excludePattern options) (fst c) = Inr False"
    by (rule searchFolders_preserves
          [where I = "\<lambda>s. \<forall>c \<in> set (calls s).
                        pattern_test E (excludePattern options) (fst c) = Inr False",
           OF _ _ run])
       (simp_all add: searchInFile_calls_not_excluded)
  then show ?thesis by (simp add: cs)
qed

lemma mock_scan_lines_excludePattern:
  "mock_scan_lines (options\<lparr>excludePattern := x\<rparr>) filePath query i lines rs =
   mock_scan_lines options filePath query i lines rs"
  by (induction lines arbitrary: i rs) (simp_all add: Let_def)

lemma mock_scan_files_excludePattern:
  "mock_scan_files (options\<lparr>excludePattern := x\<rparr>) query files rs =
   mock_scan_files options query files rs"
  by (induction files arbitrary: rs) (auto simp: mock_scan_lines_excludePattern)

text \<open>
  Claim C6, as amended. In the walk-based search of \<open>CodeSandboxInstance\<close>, a file whose path
  the (non-empty) \<open>excludePattern\<close> matches is left as it is found: \<open>_searchInFile\<close> returns
  without a callback, and no batch of a whole search is keyed by that path. The search of the
  mock instance is the same whatever \<open>excludePattern\<close> is set to.
\<close>

theorem walk_search_skips_excluded:
  assumes "pattern_test E (excludePattern options) filePath = Inr True"
  shows "searchInFile E A inst filePath query options st = st \<and>
         (cs_textSearch fuel E A inst query options = Some (Inr cs) \<longrightarrow>
            filePath \<notin> fst ` set cs) \<and>
         mock_textSearch mockFiles query (options\<lparr>excludePattern := x\<rparr>) =
           mock_textSearch mockFiles query options"
proof -
  have "filePath \<notin> fst ` set cs" if "cs_textSearch fuel E A inst query options = Some (Inr cs)"
    using cs_textSearch_not_excluded [OF that] assms by auto
  moreover have "mock_textSearch mockFiles query (options\<lparr>excludePattern := x\<rparr>) =
      mock_textSearch mockFiles query options"
    by (simp add: mock_textSearch_def mock_scan_files_excludePattern)
  ultimately show ?thesis
    using searchInFile_excluded [OF assms] by blast
qed

lemma excluded_path:
  "pattern_test alternatives_engine (excludePattern search_options) ''/node_modules/x.js'' = Inr True"
  by code_simp

lemma walk_search_run:
  "cs_textSearch 2 alternatives_engine sample_api sample_instance ''FOO'' search_options =
     Some (Inr [(''/a.txt'', sample_matches)])"
  by code_simp

theorem walk_search_skips_excluded_witness:
  "pattern_test alternatives_engine (excludePattern search_options) ''/node_modules/x.js'' = Inr True \<and>
   cs_readFile sample_api sample_instance ''/node_modules/x.js'' = Inr ''foo'' \<and>
   searchInFile alternatives_engine sample_api sample_instance ''/node_modules/x.js'' ''FOO''
       search_options \<lparr>results = [], calls = []\<rparr> = \<lparr>results = [], calls = []\<rparr> \<and>
   cs_textSearch 2 alternatives_engine sample_api sample_instance ''FOO'' search_options =
     Some (Inr [(''/a.txt'', sample_matches)]) \<and>
   ''/node_modules/x.js'' \<notin> fst ` set [(''/a.txt'', sample_matches)]"
proof -
  have r: "cs_readFile sample_api sample_instance ''/node_modules/x.js'' = Inr ''foo''"
    by (simp add: cs_readFile_def sample_api_def sample_instance_def sample_tree_def)
  from walk_search_skips_excluded [OF excluded_path, where A = sample_api
      and inst = sample_instance and query = "''FOO''"
      and st = "\<lparr>results = [], calls = []\<rparr>" and fuel = 2
      and cs = "[(''/a.txt'', sample_matches)]"]
    excluded_path walk_search_run r
  show ?thesis by simp
qed

text \<open>
  Claim C6 as stated fails for the mock instance: its \<open>textSearch\<close> does not read
  \<open>excludePattern\<close>. Over the files its constructor seeds, a search for \<open>mock\<close> that
  excludes \<open>README\<close> still reports the match in \<open>/README.md\<close>, a path the pattern matches.
\<close>

theorem mock_search_ignores_excludePattern:
  "pattern_test alternatives_engine
     (excludePattern (plain_options\<lparr>excludePattern := Some ''README''\<rparr>)) ''/README.md'' =
     Inr True \<and>
   (case mock_textSearch MockCodeSandboxInstance_files ''mock''
           (plain_options\<lparr>excludePattern := Some ''README''\<rparr>) of
      Inl e \<Rightarrow> None
    | Inr cs \<Rightarrow> map_of cs ''/README.md'') =
     Some [\<lparr>m_path = ''/README.md'', lineNumber = 3,
            previewText = ''This is a mock project for fallback mode.'',
            matchCharStart = 10, matchCharEnd = 14\<rparr>]"
  by code_simp

text \<open>
  Claim C9 as stated fails: with \<open>maxResults = 1\<close> the mock instance, over the files its
  constructor seeds, hands three matches for \<open>mock\<close> to the progress callback, and the
  walk over the sample file system hands over two for \<open>FOO\<close>.
\<close>

theorem walk_search_exceeds_maxResults:
  "maxResults search_options = Some 1 \<and>
   (case mock_textSearch MockCodeSandboxInstance_files ''mock'' search_options of
      Inl e \<Rightarrow> 0
    | Inr cs \<Rightarrow> emitted cs) = 3 \<and>
   cs_textSearch 2 alternatives_engine sample_api sample_instance ''FOO'' search_options =
     Some (Inr [(''/a.txt'', sample_matches)]) \<and>
   emitted [(''/a.txt'', sample_matches)] = 2"
  by code_simp

lemma line_matchIndex_maxResults:
  "line_matchIndex E (options\<lparr>maxResults := n\<rparr>) query line = line_matchIndex E options query line"
  by (simp add: line_matchIndex_def)

lemma scan_lines_maxResults:
  "scan_lines E (options\<lparr>maxResults := n\<rparr>) filePath query i lines acc =
   scan_lines E options filePath query i lines acc"
  by (induction lines arbitrary: i acc)
     (simp_all add: line_matchIndex_maxResults cong: sum.case_cong)

lemma searchInFile_maxResults:
  "searchInFile E A inst filePath query (options\<lparr>maxResults := n\<rparr>) st =
   searchInFile E A inst filePath query options st"
  by (simp add: searchInFile_def scan_lines_maxResults cong: sum.case_cong bool.case_cong if_cong)

lemma searchEntries_maxResults:
  assumes "\<And>fp s. searchInFolder fuel E A inst fp query (options\<lparr>maxResults := n\<rparr>) s =
                    searchInFolder fuel E A inst fp query options s"
  shows "searchEntries fuel E A inst folderPath entries query (options\<lparr>maxResults := n\<rparr>) st =
         searchEntries fuel E A inst folderPath entries query options st"
proof (induction entries arbitrary: st)
  case Nil
  show ?case by simp
next
  case (Cons entry entries)
  show ?case
    by (simp add: Let_def assms Cons.IH searchInFile_maxResults
        cong: sum.case_cong option.case_cong if_cong)
qed

lemma searchInFolder_maxResults:
  "searchInFolder fuel E A inst folderPath query (options\<lparr>maxResults := n\<rparr>) st =
   searchInFolder fuel E A inst folderPath query options st"
proof (induction fuel arbitrary: folderPath st)
  case 0
  show ?case by simp
next
  case (Suc fuel)
  show ?case
    by (simp add: searchEntries_maxResults [OF Suc.IH] cong: sum.case_cong)
qed

lemma searchFolders_maxResults:
  "searchFolders fuel E A inst fs query (options\<lparr>maxResults := n\<rparr>) st =
   searchFolders fuel E A inst fs query options st"
  by (induction fs arbitrary: st)
     (simp_all add: searchInFolder_maxResults cong: option.case_cong)

lemma mock_scan_lines_maxResults:
  "mock_scan_lines (options\<lparr>maxResults := n\<rparr>) filePath query i lines rs =
   mock_scan_lines options filePath query i lines rs"
  by (induction lines arbitrary: i rs) (simp_all add: Let_def)

lemma mock_scan_files_maxResults:
  "mock_scan_files (options\<lparr>maxResults := n\<rparr>) query files rs =
   mock_scan_files options query files rs"
  by (induction files arbitrary: rs) (auto simp: mock_scan_lines_maxResults)

text \<open>
  Claim C9, as amended. Neither search reads \<open>maxResults\<close>: a search with any value set for
  it makes the same progress callbacks as the search without.
\<close>

theorem search_independent_of_maxResults:
  "cs_textSearch fuel E A inst query (options\<lparr>maxResults := n\<rparr>) =
     cs_textSearch fuel E A inst query options \<and>
   mock_textSearch mockFiles query (options\<lparr>maxResults := n\<rparr>) =
     mock_textSearch mockFiles query options"
  by (simp add: cs_textSearch_def searchFolders_maxResults mock_textSearch_def
      mock_scan_files_maxResults)

theorem search_independent_of_maxResults_witness:
  "cs_initialized sample_instance \<and> cs_fileSystem sample_instance = Some sample_tree \<and>
   maxResults search_options = Some 1 \<and>
   cs_textSearch 2 alternatives_engine sample_api sample_instance ''FOO''
     (search_options\<lparr>maxResults := Some 1000\<rparr>) = Some (Inr [(''/a.txt'', sample_matches)])"
  using search_independent_of_maxResults [where fuel = 2 and E = alternatives_engine
      and A = sample_api and inst = sample_instance and query = "''FOO''"
      and options = search_options and n = "Some 1000" and mockFiles = sample_tree]
    walk_search_run
  by (simp add: sample_instance_def search_options_def)

lemma str_split_nonempty: "str_split c s \<noteq> []"
  by (induction s) (auto split: list.splits)

lemma display_ranges_map:
  "display_ranges filePath previewLines previewMatches rs acc =
     acc @ map (\<lambda>r. \<lparr>m_path = filePath, lineNumber = startLineNumber r,
                      previewText = code_preview previewLines previewMatches r,
                      matchCharStart = startColumn r, matchCharEnd = endColumn r\<rparr>) rs"
  by (induction rs arbitrary: acc) (simp_all add: code_preview_def Let_def)

lemma code_preview_reconciled:
  "code_preview (str_split CHR 0x0A (preview_text apiMatch)) (preview_matches apiMatch) r =
     reconciled_preview apiMatch r"
proof -
  obtain l ls where ls: "str_split CHR 0x0A (preview_text apiMatch) = l # ls"
    using str_split_nonempty [of "CHR 0x0A" "preview_text apiMatch"]
    by (cases "str_split CHR 0x0A (preview_text apiMatch)") auto
  show ?thesis
    by (cases "preview_matches apiMatch")
       (auto simp: code_preview_def reconciled_preview_def ls Let_def)
qed

lemma display_ranges_reconciled:
  "display_ranges filePath (str_split CHR 0x0A (preview_text apiMatch))
      (preview_matches apiMatch) rs acc =
     acc @ map (reconciled filePath apiMatch) rs"
  by (simp add: display_ranges_map code_preview_reconciled reconciled_def)

text \<open>
  Claim C7. The progress callback of the native search turns every range of every raw match
  into one display match whose \<open>lineNumber\<close> is the range's \<open>startLineNumber\<close> and whose
  \<open>previewText\<close> is the preview line at the index \<open>range.startLineNumber\<close> minus the start
  line the preview declares, or the first preview line when that index is negative or past
  the last preview line (and when the preview declares no line). The preview always has a
  first line.
\<close>

theorem preview_line_reconciliation:
  "display_apiMatches filePath apiMatches acc =
     acc @ concat (map (\<lambda>apiMatch. map (reconciled filePath apiMatch) (ranges apiMatch))
                       apiMatches) \<and>
   str_split CHR 0x0A (preview_text apiMatch) \<noteq> [] \<and>
   lineNumber (reconciled filePath apiMatch r) = startLineNumber r"
proof -
  have "display_apiMatches filePath apiMatches acc =
     acc @ concat (map (\<lambda>apiMatch. map (reconciled filePath apiMatch) (ranges apiMatch))
                       apiMatches)"
    by (induction apiMatches arbitrary: acc) (simp_all add: display_ranges_reconciled)
  then show ?thesis
    by (simp add: str_split_nonempty reconciled_def)
qed

section \<open>Properties of the hybrid file manager\<close>

lemma timeout_gives_mock:
  assumes "\<not> SSR env" "VITE_CSB_API_KEY env = Some apiKey" "apiKey \<noteq> []"
    "hot_codesandbox env = None" "\<forall>t r. create = SettlesAt t r \<longrightarrow> 8000 < t"
  shows "codesandbox env create mockFiles = Fulfilled (MockInstance new_CodeSandboxInstance mockFiles)"
proof -
  have "race_timeout 8000 create = Inl (ErrorValue ''Sandbox creation timeout'')"
    using assms(5) by (cases create) (auto simp: race_timeout_def)
  then show ?thesis
    using assms(1-4)
    by (simp add: codesandbox_def cs_initialize_def new_CodeSandboxInstance_def
        initialize_failed_def Let_def)
qed

lemma timeout_always_local:
  assumes "\<not> SSR env" "VITE_CSB_API_KEY env = Some apiKey" "apiKey \<noteq> []"
    "hot_codesandbox env = None" "\<forall>t r. create = SettlesAt t r \<longrightarrow> 8000 < t"
  shows "\<exists>m'. hfm_initialize A now packageJson appTsx (codesandbox env create mockFiles) wc m =
                Some m' \<and> provider m' = Local \<and> isReady m'"
  by (simp add: timeout_gives_mock [OF assms] hfm_initialize_def isMockInstance_def Let_def)

text \<open>
  Claim C1 asks that after a creation of the sandbox that does not settle before the timer,
  the WebContainer, next in the chain, is the active provider. The code does otherwise. In
  a browser with an API key and an available WebContainer, a sandbox that is never created,
  or created after the timer has fired, leaves the local provider active: the promise
  \<open>codesandbox\<close> resolves to the mock instance and \<open>_initialize\<close> takes it for local without
  awaiting the WebContainer. The neighbouring failures do reach the WebContainer: a missing
  API key, and a created sandbox whose health check fails.
\<close>

theorem timeout_skips_webcontainer:
  "map_option provider
     (hfm_initialize unit_api 0 ''{}'' ''export default App''
        (codesandbox browser_env Never MockCodeSandboxInstance_files) (Fulfilled ())
        fresh_manager) = Some Local \<and>
   map_option provider
     (hfm_initialize unit_api 0 ''{}'' ''export default App''
        (codesandbox browser_env late_sandbox MockCodeSandboxInstance_files) (Fulfilled ())
        fresh_manager) = Some Local \<and>
   map_option provider
     (hfm_initialize unit_api 0 ''{}'' ''export default App''
        (codesandbox (browser_env\<lparr>VITE_CSB_API_KEY := None\<rparr>) Never
           MockCodeSandboxInstance_files) (Fulfilled ())
        fresh_manager) = Some Webcontainer \<and>
   map_option provider
     (hfm_initialize unit_api 0 ''{}'' ''export default App''
        (codesandbox browser_env connected_sandbox MockCodeSandboxInstance_files) (Fulfilled ())
        fresh_manager) = Some Webcontainer"
  by (simp add: hfm_initialize_def codesandbox_def browser_env_def cs_initialize_def
      race_timeout_def initialize_failed_def isMockInstance_def new_CodeSandboxInstance_def
      try_webcontainer_def instance_healthCheck_def cs_healthCheck_def cs_readdir_def
      late_sandbox_def connected_sandbox_def Let_def)

text \<open>
  Claim C2 as stated fails: on the server the promise \<open>codesandbox\<close> never settles, and in
  the browser it never settles when \<open>connect()\<close> of the created sandbox never does; in both
  cases \<open>_initialize\<close> never returns and the manager stays not ready.
\<close>

theorem initialize_never_ready:
  "codesandbox server_env Never MockCodeSandboxInstance_files = (Pending :: unit sandbox_instance settled) \<and>
   hfm_initialize unit_api 0 ''{}'' ''export default App''
     (codesandbox server_env Never MockCodeSandboxInstance_files) (Fulfilled ()) fresh_manager = None \<and>
   hfm_initialize unit_api 0 ''{}'' ''export default App''
     (codesandbox browser_env hanging_connect MockCodeSandboxInstance_files) (Fulfilled ()) fresh_manager = None \<and>
   \<not> isReady fresh_manager"
  by (simp add: hfm_initialize_def codesandbox_def browser_env_def server_env_def
      cs_initialize_def race_timeout_def hanging_connect_def new_CodeSandboxInstance_def
      fresh_manager_def new_HybridFileManager_def Let_def)

text \<open>
  Claim C2, as amended. Whenever awaiting \<open>codesandbox\<close> and awaiting \<open>webcontainer\<close> settle
  (each fulfilled or rejected), \<open>_initialize\<close> returns with \<open>_isReady = true\<close>, a provider
  whose adapter is in \<open>_fileSystem\<close>, and the error field untouched: no failure of an attempt
  reaches the caller.
\<close>

theorem initialize_reaches_ready:
  assumes "cs \<noteq> Pending" "wc \<noteq> Pending"
  shows "\<exists>m'. hfm_initialize A now packageJson appTsx cs wc m = Some m' \<and>
              isReady m' \<and> error m' = error m \<and> adapter_kind (fileSystem m') = provider m'"
  using assms
  by (cases cs; cases wc)
     (auto simp: hfm_initialize_def try_webcontainer_def Let_def)

theorem initialize_reaches_ready_witness:
  "codesandbox (browser_env\<lparr>VITE_CSB_API_KEY := None\<rparr>) Never MockCodeSandboxInstance_files \<noteq> Pending \<and>
   (Rejected (ErrorValue ''no WebContainer'') :: unit settled) \<noteq> Pending \<and>
   (\<exists>m'. hfm_initialize unit_api 0 ''{}'' ''export default App''
            (codesandbox (browser_env\<lparr>VITE_CSB_API_KEY := None\<rparr>) Never MockCodeSandboxInstance_files)
            (Rejected (ErrorValue ''no WebContainer'')) fresh_manager = Some m' \<and>
          isReady m' \<and> error m' = None \<and> provider m' = Local)"
proof -
  have c: "codesandbox (browser_env\<lparr>VITE_CSB_API_KEY := None\<rparr>) Never MockCodeSandboxInstance_files =
      (Rejected (ErrorValue ''CodeSandbox API key not found'') :: unit sandbox_instance settled)"
    by (simp add: codesandbox_def browser_env_def)
  have h1: "codesandbox (browser_env\<lparr>VITE_CSB_API_KEY := None\<rparr>) Never MockCodeSandboxInstance_files \<noteq>
      (Pending :: unit sandbox_instance settled)"
    by (simp add: c)
  have h2: "(Rejected (ErrorValue ''no WebContainer'') :: unit settled) \<noteq> Pending"
    by simp
  from initialize_reaches_ready [OF h1 h2, of unit_api 0 "''{}''" "''export default App''"
      fresh_manager] h1 h2
  show ?thesis
    by (auto simp: c hfm_initialize_def try_webcontainer_def fresh_manager_def
        new_HybridFileManager_def)
qed

lemma perform_selection: "selection (perform A W now op m) = selection m"
  by (cases op)
     (auto simp: selection_def hfm_readFile_def hfm_writeFile_def hfm_readdir_def hfm_mkdir_def
        hfm_deleteFile_def hfm_deleteDirectory_def hfm_exists_def hfm_stat_def hfm_healthCheck_def
        split: adapter.splits option.splits prod.splits sum.splits)

lemma perform_all_selection: "selection (perform_all A W now ops m) = selection m"
  by (induction ops arbitrary: now m) (simp_all add: perform_selection)

lemma healthCheck_unchanged: "snd (hfm_healthCheck A W m) = m"
  by (auto simp: hfm_healthCheck_def hfm_readdir_def
        split: adapter.splits option.splits prod.splits sum.splits)

text \<open>
  Claim C8. None of the nine operations, succeeding or failing, on any adapter, changes the
  provider, the readiness flag or which adapter \<open>_fileSystem\<close> holds, and neither does any
  run of them; \<open>healthCheck\<close> returns a boolean and leaves the whole manager as it was.
\<close>

theorem operations_keep_selection:
  "provider (perform A W now op m) = provider m \<and>
   isReady (perform A W now op m) = isReady m \<and>
   adapter_kind (fileSystem (perform A W now op m)) = adapter_kind (fileSystem m) \<and>
   provider (perform_all A W now ops m) = provider m \<and>
   isReady (perform_all A W now ops m) = isReady m \<and>
   adapter_kind (fileSystem (perform_all A W now ops m)) = adapter_kind (fileSystem m) \<and>
   snd (hfm_healthCheck A W m) = m"
  using perform_selection [of A W now op m] perform_all_selection [of A W now ops m]
    healthCheck_unchanged [of A W m]
  by (simp add: selection_def)

end
